theory Spec2Isabelle
  imports Main "HOL-Library.AList"
begin

section \<open>JavaScript values and objects\<close>

text \<open>
  The fields of a WebSocket message and of a request body are whatever JSON the client
  sent, and the server stores them as they are. A field is absent (\<open>undefined\<close>), a
  string, or some other JSON value (a number, a boolean, \<open>null\<close>, an array, an object).
  Of another value the model keeps what the server uses: the string it turns into as a
  property key, and a tag that tells when two such values are \<open>===\<close> (the identity of
  an array or object, the value of a number, boolean or \<open>null\<close>). With the tags given
  so, \<open>===\<close> is equality of \<open>jv\<close>.
\<close>

datatype jv = jundefined | jstr string | jother nat string

fun keyOf :: "jv \<Rightarrow> string" where
  "keyOf jundefined = ''undefined''"
| "keyOf (jstr k) = k"
| "keyOf (jother tag k) = k"

text \<open>
  A stored number that the server computes with: an integer-valued double, or \<open>NaN\<close>.
  \<open>roundDouble\<close> rounds an integer to the nearest double, ties to the even significand
  (integers up to \<open>2^53\<close> are doubles; the model stops short of the overflow to
  \<open>Infinity\<close> at \<open>2^1024\<close>). Fractional and string balances are not represented.
\<close>

datatype jsnumber = number int | NaN

fun bitLength :: "nat \<Rightarrow> nat" where
  "bitLength n = (if n = 0 then 0 else Suc (bitLength (n div 2)))"

declare bitLength.simps [simp del]

definition roundDouble :: "int \<Rightarrow> int" where
  "roundDouble n =
     (let a = \<bar>n\<bar> in
      if a \<le> 2 ^ 53 then n
      else (let q = 2 ^ (bitLength (nat a) - 53);
                lo = (a div q) * q;
                r = a mod q;
                nearest = (if 2 * r < q then lo
                           else if q < 2 * r then lo + q
                           else if even (a div q) then lo else lo + q)
            in sgn n * nearest))"

text \<open>\<open>x < 1\<close>, \<open>x - 1\<close> and the truth value of \<open>x\<close>, for a field that may be absent.\<close>

fun lessThanOne :: "jsnumber option \<Rightarrow> bool" where
  "lessThanOne None = False"
| "lessThanOne (Some NaN) = False"
| "lessThanOne (Some (number n)) = (n < 1)"

fun minusOne :: "jsnumber option \<Rightarrow> jsnumber" where
  "minusOne None = NaN"
| "minusOne (Some NaN) = NaN"
| "minusOne (Some (number n)) = number (roundDouble (n - 1))"

fun truthyNumber :: "jsnumber \<Rightarrow> bool" where
  "truthyNumber NaN = False"
| "truthyNumber (number n) = (n \<noteq> 0)"

text \<open>
  A \<open>Record<string, T>\<close> of the storage is a plain object created as \<open>{}\<close>. Its own
  properties are an association list in insertion order: \<open>obj[k] = v\<close> is
  \<open>AList.update\<close> (overwrite in place, or append). Reading \<open>obj[k]\<close> for a key that is
  not an own property goes up the prototype chain, so the names of \<open>Object.prototype\<close>
  give a function (or, for \<open>__proto__\<close>, the prototype itself): a value that passes
  every \<open>if (!x)\<close> test, has none of the record's fields, and spreads to nothing.
  A read gives \<open>absent\<close> (\<open>undefined\<close> or another falsy value), \<open>stored v\<close> (an object
  with record fields) or \<open>inherited\<close> (any other truthy value).
\<close>

type_synonym 'a table = "(string \<times> 'a) list"

datatype 'a lookup = absent | stored 'a | inherited

definition objectPrototypeKeys :: "string list" where
  "objectPrototypeKeys =
     [''constructor'', ''__defineGetter__'', ''__defineSetter__'', ''hasOwnProperty'',
      ''__lookupGetter__'', ''__lookupSetter__'', ''isPrototypeOf'', ''propertyIsEnumerable'',
      ''toString'', ''valueOf'', ''__proto__'', ''toLocaleString'']"

text \<open>
  Assigning to \<open>obj["__proto__"]\<close> an object does not create a property: it replaces
  the prototype of \<open>obj\<close>. \<open>proto\<close> is that object when the prototype was replaced. A
  key is then looked up among its fields first (\<open>field p k\<close> is \<open>None\<close> when \<open>p\<close> has no
  field \<open>k\<close>, else the truth value of the field), and \<open>obj["__proto__"]\<close> reads it back.
\<close>

definition getProp ::
  "('a \<Rightarrow> string \<Rightarrow> bool option) \<Rightarrow> 'a option \<Rightarrow> 'a table \<Rightarrow> string \<Rightarrow> 'a lookup" where
  "getProp field proto t k =
     (case map_of t k of
        Some v \<Rightarrow> stored v
      | None \<Rightarrow>
         (case proto of
            None \<Rightarrow> if k \<in> set objectPrototypeKeys then inherited else absent
          | Some p \<Rightarrow>
              if k = ''__proto__'' then stored p
              else (case field p k of
                      Some b \<Rightarrow> if b then inherited else absent
                    | None \<Rightarrow> if k \<in> set objectPrototypeKeys then inherited else absent)))"

text \<open>The tables whose prototype no route replaces.\<close>

definition plainProp :: "'a table \<Rightarrow> string \<Rightarrow> 'a lookup" where
  "plainProp t k = getProp (\<lambda>p f. None) None t k"

text \<open>
  \<open>Object.values(obj)\<close> lists the own properties: those whose key is an array index
  (a decimal numeral without leading zero, below \<open>2^32 - 1\<close>) first, in ascending order,
  then the others in insertion order.
\<close>

definition isDigit :: "char \<Rightarrow> bool" where
  "isDigit c = (c \<in> set ''0123456789'')"

definition indexValue :: "string \<Rightarrow> nat" where
  "indexValue k = fold (\<lambda>c n. 10 * n + (of_char c - 48)) k 0"

definition isArrayIndex :: "string \<Rightarrow> bool" where
  "isArrayIndex k =
     (k \<noteq> [] \<and> list_all isDigit k \<and> (k = ''0'' \<or> hd k \<noteq> CHR ''0'') \<and>
      length k \<le> 10 \<and> indexValue k < 4294967295)"

definition ownOrder :: "'a table \<Rightarrow> 'a table" where
  "ownOrder t =
     sort_key (\<lambda>kv. indexValue (fst kv)) (filter (\<lambda>kv. isArrayIndex (fst kv)) t) @
     filter (\<lambda>kv. \<not> isArrayIndex (fst kv)) t"

definition Object_values :: "'a table \<Rightarrow> 'a list" where
  "Object_values t = map snd (ownOrder t)"

section \<open>Data model\<close>

text \<open>
  One record per entity, with the fields the modelled code reads or writes. A field that
  an object of the storage may lack is an option (\<open>None\<close>: \<open>undefined\<close> or \<open>null\<close>):
  \<open>updateTeam\<close> and \<open>updateMatch\<close> can store an object that has only the updated
  fields, and an insert may leave out a column that has a default. Fields copied from a
  message or a request body are \<open>jv\<close>. Counters and timestamps are \<open>int\<close>. Every field
  name carries a short prefix of its entity where several entities share the name.
\<close>

datatype user_role = role_user | role_admin
datatype match_status = waiting | live | completed
datatype question_mode = mode_competition | mode_practice
datatype payment_type = pay_registration | pay_tokens
datatype payment_status = pay_pending | pay_completed | pay_failed

record User =
  u_id :: string
  u_email :: string
  u_username :: string
  u_password :: string
  u_role :: user_role

record Team =
  t_id :: "string option"
  t_name :: "string option"
  t_createdBy :: "string option"
  practiceTokens :: "jsnumber option"

record TeamMember =
  tm_id :: string
  tm_teamId :: string
  tm_userId :: string

record Competition =
  c_id :: string
  c_name :: string
  registrationFee :: string
  maxTeams :: "int option"
  registrationDeadline :: int
  isActive :: bool

record CompetitionRegistration =
  r_id :: string
  r_competitionId :: string
  r_teamId :: jv
  paidBy :: string
  r_paymentId :: "string option"
  registeredAt :: int

record Match =
  m_id :: "string option"
  m_competitionId :: "string option"
  homeTeamId :: "string option"
  awayTeamId :: "string option"
  m_round :: "int option"
  scheduledAt :: "int option"
  m_status :: "match_status option"
  m_homeScore :: "int option"
  m_awayScore :: "int option"
  startedAt :: "int option"
  m_completedAt :: "int option"

record Question =
  q_id :: string
  q_competitionId :: "string option"
  questionText :: string
  correctAnswer :: string
  q_mode :: question_mode
  timeLimit :: int

record PlayerAnswer =
  pa_id :: string
  pa_matchId :: jv
  pa_questionId :: jv
  pa_userId :: jv
  pa_teamId :: jv
  pa_answer :: jv
  isCorrect :: bool
  answeredAt :: int
  timeTaken :: jv

record Standing =
  s_id :: string
  s_competitionId :: string
  s_teamId :: jv
  played :: int
  won :: int
  drawn :: int
  lost :: int
  pointsFor :: int
  pointsAgainst :: int
  goalDifference :: int
  leaguePoints :: int

record TokenTransaction =
  tt_id :: string
  tt_teamId :: jv
  tt_userId :: string
  tt_amount :: int
  tt_type :: string
  tt_paymentId :: "string option"
  tt_createdAt :: int

text \<open>The payment reference is \<open>REG-<Date.now()>\<close> or \<open>TOK-<Date.now()>\<close>.\<close>

datatype reference = REG int | TOK int

record Payment =
  p_id :: string
  p_userId :: string
  p_teamId :: jv
  p_competitionId :: "string option"
  p_amount :: "string option"
  p_type :: payment_type
  p_status :: payment_status
  p_reference :: "reference option"
  p_createdAt :: int
  p_completedAt :: "int option"

record PracticeSession =
  ps_id :: string
  ps_teamId :: jv
  ps_userId :: string
  ps_type :: jv
  ps_status :: string
  score :: int
  totalQuestions :: int
  ps_startedAt :: int
  ps_completedAt :: "int option"

text \<open>
  \<open>teamsProto\<close> and \<open>matchesProto\<close> are the objects that replaced the prototypes of
  \<open>data.teams\<close> and \<open>data.matches\<close>, the two tables that a route assigns to under a
  key the client chooses.
\<close>

record LocalData =
  users :: "User table"
  teams :: "Team table"
  teamsProto :: "Team option"
  teamMembers :: "TeamMember table"
  competitions :: "Competition table"
  competitionRegistrations :: "CompetitionRegistration table"
  matches :: "Match table"
  matchesProto :: "Match option"
  questions :: "Question table"
  playerAnswers :: "PlayerAnswer table"
  standings :: "Standing table"
  tokenTransactions :: "TokenTransaction table"
  payments :: "Payment table"
  practiceSessions :: "PracticeSession table"

definition emptyData :: LocalData where
  "emptyData = \<lparr>users = [], teams = [], teamsProto = None, teamMembers = [],
     competitions = [], competitionRegistrations = [], matches = [], matchesProto = None,
     questions = [], playerAnswers = [], standings = [], tokenTransactions = [],
     payments = [], practiceSessions = []\<rparr>"

definition emptyTeam :: Team where
  "emptyTeam = \<lparr>t_id = None, t_name = None, t_createdBy = None, practiceTokens = None\<rparr>"

definition emptyMatch :: Match where
  "emptyMatch = \<lparr>m_id = None, m_competitionId = None, homeTeamId = None, awayTeamId = None,
     m_round = None, scheduledAt = None, m_status = None, m_homeScore = None,
     m_awayScore = None, startedAt = None, m_completedAt = None\<rparr>"

text \<open>The fields of a team and of a match by name, with their truth values.\<close>

definition teamField :: "Team \<Rightarrow> string \<Rightarrow> bool option" where
  "teamField p k =
     (if k = ''id'' then map_option (\<lambda>v. v \<noteq> []) (t_id p)
      else if k = ''name'' then map_option (\<lambda>v. v \<noteq> []) (t_name p)
      else if k = ''createdBy'' then map_option (\<lambda>v. v \<noteq> []) (t_createdBy p)
      else if k = ''practiceTokens'' then map_option truthyNumber (practiceTokens p)
      else None)"

definition matchField :: "Match \<Rightarrow> string \<Rightarrow> bool option" where
  "matchField p k =
     (if k = ''id'' then map_option (\<lambda>v. v \<noteq> []) (m_id p)
      else if k = ''competitionId'' then map_option (\<lambda>v. v \<noteq> []) (m_competitionId p)
      else if k = ''homeTeamId'' then map_option (\<lambda>v. v \<noteq> []) (homeTeamId p)
      else if k = ''awayTeamId'' then map_option (\<lambda>v. v \<noteq> []) (awayTeamId p)
      else if k = ''round'' then map_option (\<lambda>v. v \<noteq> 0) (m_round p)
      else if k = ''scheduledAt'' then map_option (\<lambda>v. True) (scheduledAt p)
      else if k = ''status'' then map_option (\<lambda>v. True) (m_status p)
      else if k = ''homeScore'' then map_option (\<lambda>v. v \<noteq> 0) (m_homeScore p)
      else if k = ''awayScore'' then map_option (\<lambda>v. v \<noteq> 0) (m_awayScore p)
      else if k = ''startedAt'' then map_option (\<lambda>v. True) (startedAt p)
      else if k = ''completedAt'' then map_option (\<lambda>v. True) (m_completedAt p)
      else None)"

text \<open>\<open>{...x}\<close> for the result of a read that passed \<open>if (!x)\<close>.\<close>

fun spread :: "'a \<Rightarrow> 'a lookup \<Rightarrow> 'a" where
  "spread none (stored v) = v"
| "spread none inherited = none"
| "spread none absent = none"

section \<open>LocalStorageAdapter\<close>

text \<open>
  Each method takes the data and returns the new data (and the method's result where a
  caller reads it). \<open>generateId()\<close> and each \<open>new Date()\<close> are arguments: the id
  \<open>nid\<close>, a string of digits and lower-case letters, and the clock reading \<open>now\<close>. A
  \<open>create\<close> method spreads its argument and then overrides \<open>id\<close> and the fields it
  sets, so the argument is a whole record whose overridden fields do not matter. A
  \<open>Partial<T>\<close> is the function that overrides the given fields.
\<close>

definition getUser :: "LocalData \<Rightarrow> string \<Rightarrow> User lookup" where
  "getUser d k = plainProp (users d) k"

definition getTeam :: "LocalData \<Rightarrow> string \<Rightarrow> Team lookup" where
  "getTeam d k = getProp teamField (teamsProto d) (teams d) k"

definition setTeam :: "string \<Rightarrow> Team \<Rightarrow> LocalData \<Rightarrow> LocalData" where
  "setTeam k v d =
     (if k = ''__proto__'' then d\<lparr>teamsProto := Some v\<rparr>
      else d\<lparr>teams := AList.update k v (teams d)\<rparr>)"

definition updateTeam :: "string \<Rightarrow> (Team \<Rightarrow> Team) \<Rightarrow> LocalData \<Rightarrow> Team option \<times> LocalData" where
  "updateTeam k upd d =
     (case getTeam d k of
        absent \<Rightarrow> (None, d)
      | team \<Rightarrow>
          (let updated = upd (spread emptyTeam team)
           in (Some updated, setTeam k updated d)))"

definition isTeamMember :: "LocalData \<Rightarrow> jv \<Rightarrow> string \<Rightarrow> bool" where
  "isTeamMember d teamId userId =
     list_ex (\<lambda>m. jstr (tm_teamId m) = teamId \<and> tm_userId m = userId)
       (Object_values (teamMembers d))"

definition getCompetition :: "LocalData \<Rightarrow> string \<Rightarrow> Competition lookup" where
  "getCompetition d k = plainProp (competitions d) k"

definition registerTeam ::
  "string \<Rightarrow> int \<Rightarrow> CompetitionRegistration \<Rightarrow> LocalData \<Rightarrow> CompetitionRegistration \<times> LocalData" where
  "registerTeam nid now registration d =
     (let newReg = registration\<lparr>r_id := nid, registeredAt := now\<rparr>
      in (newReg, d\<lparr>competitionRegistrations :=
                        AList.update nid newReg (competitionRegistrations d)\<rparr>))"

definition getRegisteredTeams :: "LocalData \<Rightarrow> string \<Rightarrow> CompetitionRegistration list" where
  "getRegisteredTeams d competitionId =
     filter (\<lambda>r. r_competitionId r = competitionId)
       (Object_values (competitionRegistrations d))"

definition isTeamRegistered :: "LocalData \<Rightarrow> string \<Rightarrow> jv \<Rightarrow> bool" where
  "isTeamRegistered d competitionId teamId =
     list_ex (\<lambda>r. r_competitionId r = competitionId \<and> r_teamId r = teamId)
       (Object_values (competitionRegistrations d))"

definition getMatch :: "LocalData \<Rightarrow> string \<Rightarrow> Match lookup" where
  "getMatch d k = getProp matchField (matchesProto d) (matches d) k"

definition setMatch :: "string \<Rightarrow> Match \<Rightarrow> LocalData \<Rightarrow> LocalData" where
  "setMatch k v d =
     (if k = ''__proto__'' then d\<lparr>matchesProto := Some v\<rparr>
      else d\<lparr>matches := AList.update k v (matches d)\<rparr>)"

definition createMatch :: "string \<Rightarrow> Match \<Rightarrow> LocalData \<Rightarrow> Match \<times> LocalData" where
  "createMatch nid match d =
     (let newMatch = match\<lparr>m_id := Some nid, m_homeScore := Some 0, m_awayScore := Some 0,
                            startedAt := None, m_completedAt := None\<rparr>
      in (newMatch, d\<lparr>matches := AList.update nid newMatch (matches d)\<rparr>))"

definition updateMatch :: "string \<Rightarrow> (Match \<Rightarrow> Match) \<Rightarrow> LocalData \<Rightarrow> Match option \<times> LocalData" where
  "updateMatch k upd d =
     (case getMatch d k of
        absent \<Rightarrow> (None, d)
      | match \<Rightarrow>
          (let updated = upd (spread emptyMatch match)
           in (Some updated, setMatch k updated d)))"

definition getQuestion :: "LocalData \<Rightarrow> string \<Rightarrow> Question lookup" where
  "getQuestion d k = plainProp (questions d) k"

text \<open>
  \<open>getQuestionsByMode\<close> sorts by \<open>Math.random() - 0.5\<close>; the outcome of that sort is
  the argument \<open>shuffle\<close>.
\<close>

definition getQuestionsByMode ::
  "(Question list \<Rightarrow> Question list) \<Rightarrow> LocalData \<Rightarrow> question_mode \<Rightarrow> nat \<Rightarrow> Question list" where
  "getQuestionsByMode shuffle d mode limit =
     take limit (shuffle (filter (\<lambda>q. q_mode q = mode) (Object_values (questions d))))"

definition submitAnswer :: "string \<Rightarrow> int \<Rightarrow> PlayerAnswer \<Rightarrow> LocalData \<Rightarrow> PlayerAnswer \<times> LocalData" where
  "submitAnswer nid now answer d =
     (let newAnswer = answer\<lparr>pa_id := nid, answeredAt := now\<rparr>
      in (newAnswer, d\<lparr>playerAnswers := AList.update nid newAnswer (playerAnswers d)\<rparr>))"

definition getAnswersByMatch :: "LocalData \<Rightarrow> jv \<Rightarrow> PlayerAnswer list" where
  "getAnswersByMatch d matchId =
     filter (\<lambda>a. pa_matchId a = matchId) (Object_values (playerAnswers d))"

text \<open>
  The loop of \<open>getPlayerScoresByMatch\<close> over the object \<open>scores\<close>, itself a plain
  \<open>{}\<close>. \<open>!scores[k]\<close> holds for a missing entry and for the entries \<open>0\<close> and \<open>NaN\<close>,
  not for an inherited name; \<open>scores[k]++\<close> on an inherited name stores \<open>NaN\<close>, except
  under \<open>__proto__\<close>, where the assignment of a number does nothing. The result is
  listed in the order of \<open>JSON.stringify\<close>, which is that of \<open>Object.values\<close>.
\<close>

definition plusOne :: "jsnumber \<Rightarrow> jsnumber" where
  "plusOne x = (case x of NaN \<Rightarrow> NaN | number n \<Rightarrow> number (roundDouble (n + 1)))"

fun playerScoresLoop ::
  "PlayerAnswer list \<Rightarrow> (string \<times> jsnumber) list \<Rightarrow> (string \<times> jsnumber) list" where
  "playerScoresLoop [] scores = scores"
| "playerScoresLoop (answer # rest) scores =
     (let k = keyOf (pa_userId answer);
          scores1 = (case map_of scores k of
                       Some v \<Rightarrow> if truthyNumber v then scores
                                else AList.update k (number 0) scores
                     | None \<Rightarrow> if k \<in> set objectPrototypeKeys then scores
                               else AList.update k (number 0) scores);
          scores2 = (if isCorrect answer then
                       (case map_of scores1 k of
                          Some v \<Rightarrow> AList.update k (plusOne v) scores1
                        | None \<Rightarrow> if k = ''__proto__'' then scores1
                                  else AList.update k NaN scores1)
                     else scores1)
      in playerScoresLoop rest scores2)"

definition getPlayerScoresByMatch :: "LocalData \<Rightarrow> jv \<Rightarrow> (string \<times> jsnumber) list" where
  "getPlayerScoresByMatch d matchId =
     ownOrder (playerScoresLoop (getAnswersByMatch d matchId) [])"

definition updateStanding ::
  "string \<Rightarrow> (Standing \<Rightarrow> Standing) \<Rightarrow> LocalData \<Rightarrow> Standing option \<times> LocalData" where
  "updateStanding k upd d =
     (case map_of (standings d) k of
        None \<Rightarrow> (None, d)
      | Some standing \<Rightarrow>
          (let updated = upd standing
           in (Some updated, d\<lparr>standings := AList.update k updated (standings d)\<rparr>)))"

definition createStanding :: "string \<Rightarrow> Standing \<Rightarrow> LocalData \<Rightarrow> Standing \<times> LocalData" where
  "createStanding nid standing d =
     (let newStanding = standing\<lparr>s_id := nid\<rparr>
      in (newStanding, d\<lparr>standings := AList.update nid newStanding (standings d)\<rparr>))"

definition createTokenTransaction ::
  "string \<Rightarrow> int \<Rightarrow> TokenTransaction \<Rightarrow> LocalData \<Rightarrow> TokenTransaction \<times> LocalData" where
  "createTokenTransaction nid now transaction d =
     (let newTransaction = transaction\<lparr>tt_id := nid, tt_createdAt := now\<rparr>
      in (newTransaction,
          d\<lparr>tokenTransactions := AList.update nid newTransaction (tokenTransactions d)\<rparr>))"

definition createPayment :: "string \<Rightarrow> int \<Rightarrow> Payment \<Rightarrow> LocalData \<Rightarrow> Payment \<times> LocalData" where
  "createPayment nid now payment d =
     (let newPayment = payment\<lparr>p_id := nid, p_createdAt := now, p_completedAt := None\<rparr>
      in (newPayment, d\<lparr>payments := AList.update nid newPayment (payments d)\<rparr>))"

definition createPracticeSession ::
  "string \<Rightarrow> int \<Rightarrow> PracticeSession \<Rightarrow> LocalData \<Rightarrow> PracticeSession \<times> LocalData" where
  "createPracticeSession nid now session d =
     (let newSession = session\<lparr>ps_id := nid, ps_startedAt := now, ps_completedAt := None,
                                score := 0, totalQuestions := 0\<rparr>
      in (newSession, d\<lparr>practiceSessions := AList.update nid newSession (practiceSessions d)\<rparr>))"

section \<open>The WebSocket server\<close>

text \<open>
  A socket is an object identity; its \<open>readyState\<close> lives in the store \<open>sockets\<close>,
  which the \<open>ws\<close> library changes. \<open>matchRooms\<close> and \<open>matchStates\<close> are \<open>Map\<close>s:
  association lists in insertion order whose keys are the values the client sent (a
  \<open>Map\<close> compares keys as \<open>===\<close> does and has no inherited entries). A \<open>Set\<close> of
  sockets is a list without repetition in insertion order. \<open>sent\<close> is the log of the
  calls \<open>socket.send(JSON.stringify(message))\<close>, oldest first.
  A handler runs from start to end without another handler in between.
\<close>

type_synonym ws = nat

datatype ready_state = CONNECTING | OPEN | CLOSING | CLOSED

record match_state =
  status :: match_status
  currentQuestion :: int
  homeScore :: int
  awayScore :: int
  timeRemaining :: int

text \<open>
  The messages of the server. \<open>msg_match_state\<close> is \<open>{type: "match_state", status,
  currentQuestion, homeScore?, awayScore?, timeRemaining?}\<close>: the reply to a join carries
  all five fields, the broadcast of a match start only the first two.
\<close>

datatype server_msg =
    msg_match_state match_status int "int option" "int option" "int option"
  | msg_answer_result bool
  | msg_score_update "(string \<times> jsnumber) list" int int

text \<open>
  The parsed client message: \<open>join_match matchId userId\<close>,
  \<open>submit_answer matchId userId questionId answer teamId timeTaken\<close>, or anything else
  (another \<open>type\<close>, or a text that \<open>JSON.parse\<close> rejects, which the handler only logs).
\<close>

datatype client_msg =
    join_match jv jv
  | submit_answer jv jv jv jv jv jv
  | other_message

record server =
  data :: LocalData
  matchRooms :: "(jv \<times> ws list) list"
  matchStates :: "(jv \<times> match_state) list"
  sockets :: "(ws \<times> ready_state) list"
  sent :: "(ws \<times> server_msg) list"

definition readyState :: "server \<Rightarrow> ws \<Rightarrow> ready_state option" where
  "readyState s c = map_of (sockets s) c"

definition Set_add :: "ws \<Rightarrow> ws list \<Rightarrow> ws list" where
  "Set_add c cs = (if c \<in> set cs then cs else cs @ [c])"

definition ws_send :: "ws \<Rightarrow> server_msg \<Rightarrow> server \<Rightarrow> server" where
  "ws_send c message s = s\<lparr>sent := sent s @ [(c, message)]\<rparr>"

definition defaultState :: match_state where
  "defaultState = \<lparr>status = waiting, currentQuestion = 0, homeScore = 0, awayScore = 0,
     timeRemaining = 30\<rparr>"

definition stateMessage :: "match_state \<Rightarrow> server_msg" where
  "stateMessage st = msg_match_state (status st) (currentQuestion st)
     (Some (homeScore st)) (Some (awayScore st)) (Some (timeRemaining st))"

fun forEachClient :: "server_msg \<Rightarrow> ws list \<Rightarrow> server \<Rightarrow> server" where
  "forEachClient message [] s = s"
| "forEachClient message (client # rest) s =
     forEachClient message rest
       (if readyState s client = Some OPEN then ws_send client message s else s)"

definition broadcastToMatch :: "jv \<Rightarrow> server_msg \<Rightarrow> server \<Rightarrow> server" where
  "broadcastToMatch matchId message s =
     (case map_of (matchRooms s) matchId of
        None \<Rightarrow> s
      | Some clients \<Rightarrow> forEachClient message clients s)"

text \<open>
  What the handler reads from the question and the match it found: a field of an
  inherited value is \<open>undefined\<close>.
\<close>

definition correctAnswerOf :: "Question lookup \<Rightarrow> jv" where
  "correctAnswerOf question =
     (case question of stored q \<Rightarrow> jstr (correctAnswer q) | _ \<Rightarrow> jundefined)"

definition idValue :: "string option \<Rightarrow> jv" where
  "idValue v = (case v of Some k \<Rightarrow> jstr k | None \<Rightarrow> jundefined)"

text \<open>The loop over the answers of the match that computes the two team scores.\<close>

fun scoreLoop :: "Match \<Rightarrow> PlayerAnswer list \<Rightarrow> int \<times> int \<Rightarrow> int \<times> int" where
  "scoreLoop match [] (h, a) = (h, a)"
| "scoreLoop match (ans # rest) (h, a) =
     (if isCorrect ans then
        (if pa_teamId ans = idValue (homeTeamId match) then scoreLoop match rest (h + 1, a)
         else if pa_teamId ans = idValue (awayTeamId match) then scoreLoop match rest (h, a + 1)
         else scoreLoop match rest (h, a))
      else scoreLoop match rest (h, a))"

definition joinMatch :: "ws \<Rightarrow> jv \<Rightarrow> server \<Rightarrow> server" where
  "joinMatch c matchId s =
     (let rooms1 = (if map_of (matchRooms s) matchId = None
                    then AList.update matchId [] (matchRooms s) else matchRooms s);
          rooms2 = AList.map_entry matchId (Set_add c) rooms1;
          state = (case map_of (matchStates s) matchId of
                     Some st \<Rightarrow> st
                   | None \<Rightarrow> defaultState)
      in ws_send c (stateMessage state) (s\<lparr>matchRooms := rooms2\<rparr>))"

definition submitAnswerMessage ::
  "ws \<Rightarrow> jv \<Rightarrow> jv \<Rightarrow> jv \<Rightarrow> jv \<Rightarrow> jv \<Rightarrow> jv \<Rightarrow> string \<Rightarrow> int \<Rightarrow> server \<Rightarrow> server" where
  "submitAnswerMessage c matchId userId questionId answer teamId taken nid now s =
     (case getQuestion (data s) (keyOf questionId) of
        absent \<Rightarrow> s
      | question \<Rightarrow>
         (case getMatch (data s) (keyOf matchId) of
            absent \<Rightarrow> s
          | match \<Rightarrow>
             (let correct = (answer = correctAnswerOf question);
                  d1 = snd (submitAnswer nid now
                         \<lparr>pa_id = [], pa_matchId = matchId, pa_questionId = questionId,
                          pa_userId = userId, pa_teamId = teamId, pa_answer = answer,
                          isCorrect = correct, answeredAt = 0, timeTaken = taken\<rparr> (data s));
                  s1 = ws_send c (msg_answer_result correct) (s\<lparr>data := d1\<rparr>);
                  answers = getAnswersByMatch d1 matchId;
                  (hs, as) = scoreLoop (spread emptyMatch match) answers (0, 0);
                  d2 = snd (updateMatch (keyOf matchId)
                         (\<lambda>m. m\<lparr>m_homeScore := Some hs, m_awayScore := Some as\<rparr>) d1);
                  states = (case map_of (matchStates s1) matchId of
                              None \<Rightarrow> matchStates s1
                            | Some st \<Rightarrow>
                                AList.update matchId (st\<lparr>homeScore := hs, awayScore := as\<rparr>)
                                  (matchStates s1));
                  playerScores = getPlayerScoresByMatch d2 matchId
              in broadcastToMatch matchId (msg_score_update playerScores hs as)
                   (s1\<lparr>data := d2, matchStates := states\<rparr>))))"

fun onMessage :: "ws \<Rightarrow> client_msg \<Rightarrow> string \<Rightarrow> int \<Rightarrow> server \<Rightarrow> server" where
  "onMessage c (join_match matchId userId) nid now s = joinMatch c matchId s"
| "onMessage c (submit_answer matchId userId questionId answer teamId taken) nid now s =
     submitAnswerMessage c matchId userId questionId answer teamId taken nid now s"
| "onMessage c other_message nid now s = s"

text \<open>
  The \<open>close\<close> handler: \<open>matchRooms.forEach\<close> deletes the socket from every room and
  deletes the room from the map when the room is then empty.
\<close>

fun closeRooms :: "ws \<Rightarrow> (jv \<times> ws list) list \<Rightarrow> (jv \<times> ws list) list" where
  "closeRooms c [] = []"
| "closeRooms c ((matchId, clients) # rest) =
     (let clients1 = removeAll c clients
      in if length clients1 = 0 then closeRooms c rest
         else (matchId, clients1) # closeRooms c rest)"

definition onClose :: "ws \<Rightarrow> server \<Rightarrow> server" where
  "onClose c s = s\<lparr>matchRooms := closeRooms c (matchRooms s)\<rparr>"

section \<open>The HTTP routes\<close>

text \<open>
  A handler maps the server state to the response (status code and body) and the new
  state. \<open>res.json(x)\<close> without \<open>res.status\<close> answers 200. The session of a request is
  \<open>req.session.userId\<close>, \<open>None\<close> when it is \<open>undefined\<close>; \<open>!userId\<close> also holds for
  the empty string. The body of a request is a parsed JSON object, and a route
  parameter is a string. Each \<open>new Date()\<close> and \<open>Date.now()\<close> of a handler is an
  argument of its own.
\<close>

datatype body =
    body_message string
  | body_registration CompetitionRegistration
  | body_practice PracticeSession "Question list"
  | body_success

type_synonym response = "nat \<times> body"

definition requireAuth ::
  "string option \<Rightarrow> (string \<Rightarrow> server \<Rightarrow> response \<times> server) \<Rightarrow> server \<Rightarrow> response \<times> server" where
  "requireAuth sessionUserId next s =
     (case sessionUserId of
        None \<Rightarrow> ((401, body_message ''Unauthorized''), s)
      | Some userId \<Rightarrow>
          if userId = [] then ((401, body_message ''Unauthorized''), s)
          else next userId s)"

definition requireAdmin ::
  "string option \<Rightarrow> (string \<Rightarrow> server \<Rightarrow> response \<times> server) \<Rightarrow> server \<Rightarrow> response \<times> server" where
  "requireAdmin sessionUserId next s =
     (case sessionUserId of
        None \<Rightarrow> ((401, body_message ''Unauthorized''), s)
      | Some userId \<Rightarrow>
          if userId = [] then ((401, body_message ''Unauthorized''), s)
          else (case getUser (data s) userId of
                  stored user \<Rightarrow>
                    if u_role user \<noteq> role_admin then ((403, body_message ''Forbidden''), s)
                    else next userId s
                | _ \<Rightarrow> ((403, body_message ''Forbidden''), s)))"

text \<open>
  What the registration reads from the competition it found. For an inherited value
  the deadline is \<open>new Date(undefined)\<close>, which no date exceeds, and \<open>maxTeams\<close> is
  \<open>undefined\<close>, which no length reaches; a stored competition may lack \<open>maxTeams\<close>.
\<close>

definition deadlinePassed :: "int \<Rightarrow> Competition lookup \<Rightarrow> bool" where
  "deadlinePassed now competition =
     (case competition of stored c \<Rightarrow> now > registrationDeadline c | _ \<Rightarrow> False)"

definition isFull :: "nat \<Rightarrow> Competition lookup \<Rightarrow> bool" where
  "isFull n competition =
     (case competition of
        stored c \<Rightarrow> (case maxTeams c of Some m \<Rightarrow> int n \<ge> m | None \<Rightarrow> False)
      | _ \<Rightarrow> False)"

definition feeOf :: "Competition lookup \<Rightarrow> string option" where
  "feeOf competition =
     (case competition of stored c \<Rightarrow> Some (registrationFee c) | _ \<Rightarrow> None)"

text \<open>
  \<open>POST /api/competitions/:id/register\<close>. \<open>pid\<close>, \<open>rid\<close> and \<open>sid\<close> are the ids
  that \<open>generateId()\<close> returns for the payment, the registration and the standing;
  \<open>t1\<close> to \<open>t4\<close> are the clock at the deadline test, in the payment reference, at the
  creation of the payment and at the creation of the registration.
\<close>

definition registerHandler ::
  "string \<Rightarrow> jv \<Rightarrow> int \<Rightarrow> int \<Rightarrow> int \<Rightarrow> int \<Rightarrow> string \<Rightarrow> string \<Rightarrow> string \<Rightarrow> string \<Rightarrow> server \<Rightarrow>
   response \<times> server" where
  "registerHandler competitionId teamId t1 t2 t3 t4 pid rid sid userId s =
     (case getCompetition (data s) competitionId of
        absent \<Rightarrow> ((404, body_message ''Competition not found''), s)
      | competition \<Rightarrow>
          if deadlinePassed t1 competition
          then ((400, body_message ''Registration deadline has passed''), s)
          else if isTeamRegistered (data s) competitionId teamId
          then ((400, body_message ''Team already registered''), s)
          else if isFull (length (getRegisteredTeams (data s) competitionId)) competition
          then ((400, body_message ''Competition is full''), s)
          else if \<not> isTeamMember (data s) teamId userId
          then ((403, body_message ''You are not a member of this team''), s)
          else
            (let (payment, d1) = createPayment pid t3
                   \<lparr>p_id = [], p_userId = userId, p_teamId = teamId,
                    p_competitionId = Some competitionId,
                    p_amount = feeOf competition, p_type = pay_registration,
                    p_status = pay_completed, p_reference = Some (REG t2),
                    p_createdAt = 0, p_completedAt = None\<rparr> (data s);
                 (registration, d2) = registerTeam rid t4
                   \<lparr>r_id = [], r_competitionId = competitionId, r_teamId = teamId,
                    paidBy = userId, r_paymentId = Some (p_id payment), registeredAt = 0\<rparr> d1;
                 (standing, d3) = createStanding sid
                   \<lparr>s_id = [], s_competitionId = competitionId, s_teamId = teamId,
                    played = 0, won = 0, drawn = 0, lost = 0, pointsFor = 0,
                    pointsAgainst = 0, goalDifference = 0, leaguePoints = 0\<rparr> d2
             in ((200, body_registration registration), s\<lparr>data := d3\<rparr>)))"

definition postRegister ::
  "string option \<Rightarrow> string \<Rightarrow> jv \<Rightarrow> int \<Rightarrow> int \<Rightarrow> int \<Rightarrow> int \<Rightarrow> string \<Rightarrow> string \<Rightarrow> string \<Rightarrow> server \<Rightarrow>
   response \<times> server" where
  "postRegister session competitionId teamId t1 t2 t3 t4 pid rid sid =
     requireAuth session (registerHandler competitionId teamId t1 t2 t3 t4 pid rid sid)"

text \<open>
  \<open>POST /api/practice/start\<close>. \<open>tid\<close> and \<open>sid\<close> are the generated ids of the token
  transaction and of the practice session, \<open>t1\<close> and \<open>t2\<close> the clock at their
  creation. A team that is an inherited value has no \<open>practiceTokens\<close>.
\<close>

definition tokensOf :: "Team lookup \<Rightarrow> jsnumber option" where
  "tokensOf team = (case team of stored t \<Rightarrow> practiceTokens t | _ \<Rightarrow> None)"

definition practiceStartHandler ::
  "jv \<Rightarrow> jv \<Rightarrow> int \<Rightarrow> int \<Rightarrow> string \<Rightarrow> string \<Rightarrow> (Question list \<Rightarrow> Question list) \<Rightarrow> string \<Rightarrow>
   server \<Rightarrow> response \<times> server" where
  "practiceStartHandler teamId type t1 t2 tid sid shuffle userId s =
     (case getTeam (data s) (keyOf teamId) of
        absent \<Rightarrow> ((400, body_message ''Insufficient tokens''), s)
      | team \<Rightarrow>
          if lessThanOne (tokensOf team) then ((400, body_message ''Insufficient tokens''), s)
          else
            (let d1 = snd (updateTeam (keyOf teamId)
                        (\<lambda>t. t\<lparr>practiceTokens := Some (minusOne (tokensOf team))\<rparr>) (data s));
                 d2 = snd (createTokenTransaction tid t1
                        \<lparr>tt_id = [], tt_teamId = teamId, tt_userId = userId, tt_amount = - 1,
                         tt_type = ''practice'', tt_paymentId = None, tt_createdAt = 0\<rparr> d1);
                 questions = getQuestionsByMode shuffle d2 mode_practice 10;
                 (session, d3) = createPracticeSession sid t2
                        \<lparr>ps_id = [], ps_teamId = teamId, ps_userId = userId, ps_type = type,
                         ps_status = ''active'', score = 0, totalQuestions = 0,
                         ps_startedAt = 0, ps_completedAt = None\<rparr> d2
             in ((200, body_practice session questions), s\<lparr>data := d3\<rparr>)))"

definition postPracticeStart ::
  "string option \<Rightarrow> jv \<Rightarrow> jv \<Rightarrow> int \<Rightarrow> int \<Rightarrow> string \<Rightarrow> string \<Rightarrow>
   (Question list \<Rightarrow> Question list) \<Rightarrow> server \<Rightarrow> response \<times> server" where
  "postPracticeStart session teamId type t1 t2 tid sid shuffle =
     requireAuth session (practiceStartHandler teamId type t1 t2 tid sid shuffle)"

text \<open>\<open>POST /api/admin/matches/:id/start\<close>.\<close>

definition matchStartHandler :: "string \<Rightarrow> int \<Rightarrow> string \<Rightarrow> server \<Rightarrow> response \<times> server" where
  "matchStartHandler matchId now userId s =
     (let d1 = snd (updateMatch matchId
                 (\<lambda>m. m\<lparr>m_status := Some live, startedAt := Some now\<rparr>) (data s));
          states = AList.update (jstr matchId)
                 \<lparr>status = live, currentQuestion = 0, homeScore = 0, awayScore = 0,
                  timeRemaining = 30\<rparr> (matchStates s);
          s1 = broadcastToMatch (jstr matchId) (msg_match_state live 0 None None None)
                 (s\<lparr>data := d1, matchStates := states\<rparr>)
      in ((200, body_success), s1))"

definition postMatchStart :: "string option \<Rightarrow> string \<Rightarrow> int \<Rightarrow> server \<Rightarrow> response \<times> server" where
  "postMatchStart session matchId now = requireAdmin session (matchStartHandler matchId now)"

section \<open>The server as a transition system\<close>

text \<open>
  The events are those of the \<open>ws\<close> library and the requests of the routes that write
  the matches, the standings, the rooms or the in-memory match states, and of the
  practice route. The routes left out (authentication, teams and invitations, practice
  answers, token purchases, the creation of competitions and questions, and every
  \<open>GET\<close>) call none of \<open>createMatch\<close>, \<open>updateMatch\<close>, \<open>createStanding\<close> and
  \<open>updateStanding\<close> and touch neither \<open>matchRooms\<close> nor \<open>matchStates\<close>.

  The library opens a socket in state \<open>OPEN\<close>, may move it to \<open>CLOSING\<close>, and on
  \<open>close\<close> sets it to \<open>CLOSED\<close> and then runs the \<open>close\<close> handler; it emits no
  \<open>message\<close> for a socket it has closed or never opened.
\<close>

datatype event =
    ev_connection ws
  | ev_message ws client_msg string int
  | ev_closing ws
  | ev_close ws
  | ev_register "string option" string jv int int int int string string string
  | ev_practice_start "string option" jv jv int int string string
      "Question list \<Rightarrow> Question list"
  | ev_match_start "string option" string int

definition connected :: "server \<Rightarrow> ws \<Rightarrow> bool" where
  "connected s c = (readyState s c = Some OPEN \<or> readyState s c = Some CLOSING)"

fun step :: "event \<Rightarrow> server \<Rightarrow> server" where
  "step (ev_connection c) s =
     (if readyState s c = None then s\<lparr>sockets := AList.update c OPEN (sockets s)\<rparr> else s)"
| "step (ev_message c message nid now) s =
     (if connected s c then onMessage c message nid now s else s)"
| "step (ev_closing c) s =
     (if readyState s c = Some OPEN then s\<lparr>sockets := AList.update c CLOSING (sockets s)\<rparr>
      else s)"
| "step (ev_close c) s =
     (if connected s c then onClose c (s\<lparr>sockets := AList.update c CLOSED (sockets s)\<rparr>)
      else s)"
| "step (ev_register session competitionId teamId t1 t2 t3 t4 pid rid sid) s =
     snd (postRegister session competitionId teamId t1 t2 t3 t4 pid rid sid s)"
| "step (ev_practice_start session teamId type t1 t2 tid sid shuffle) s =
     snd (postPracticeStart session teamId type t1 t2 tid sid shuffle s)"
| "step (ev_match_start session matchId now) s = snd (postMatchStart session matchId now s)"

fun run :: "event list \<Rightarrow> server \<Rightarrow> server" where
  "run [] s = s"
| "run (e # es) s = run es (step e s)"

definition initServer :: server where
  "initServer = \<lparr>data = emptyData, matchRooms = [], matchStates = [], sockets = [], sent = []\<rparr>"

section \<open>Notions used in the statements\<close>

text \<open>The room of a match id: the set stored in \<open>matchRooms\<close>, empty when there is none.\<close>

definition roomOf :: "server \<Rightarrow> jv \<Rightarrow> ws list" where
  "roomOf s matchId = (case map_of (matchRooms s) matchId of None \<Rightarrow> [] | Some clients \<Rightarrow> clients)"


text \<open>A standings row that reflects no match: all result counters are zero.\<close>

definition zeroCounters :: "Standing \<Rightarrow> bool" where
  "zeroCounters st = (played st = 0 \<and> won st = 0 \<and> drawn st = 0 \<and> lost st = 0 \<and>
     pointsFor st = 0 \<and> pointsAgainst st = 0 \<and> goalDifference st = 0 \<and> leaguePoints st = 0)"

text \<open>The user a request acts for: the session's user id when \<open>requireAuth\<close> lets it pass.\<close>

definition authenticated :: "string option \<Rightarrow> string \<Rightarrow> bool" where
  "authenticated session userId = (session = Some userId \<and> userId \<noteq> [])"

text \<open>
  The invariant of the rooms: no room is empty, and every member of a room is a socket
  the library has opened and not yet closed.
\<close>

definition roomsInv :: "server \<Rightarrow> bool" where
  "roomsInv s =
     list_all (\<lambda>(matchId, clients). clients \<noteq> [] \<and> list_all (connected s) clients)
       (matchRooms s)"

section \<open>A small server state for the examples\<close>

definition exampleMatch :: Match where
  "exampleMatch = \<lparr>m_id = Some ''m1'', m_competitionId = Some ''c1'', homeTeamId = Some ''t1'',
     awayTeamId = Some ''t2'', m_round = Some 1, scheduledAt = Some 500,
     m_status = Some waiting, m_homeScore = Some 0, m_awayScore = Some 0,
     startedAt = None, m_completedAt = None\<rparr>"

definition exampleData :: LocalData where
  "exampleData = emptyData
     \<lparr>users := [(''a1'', \<lparr>u_id = ''a1'', u_email = ''a1@x'', u_username = ''root'',
                          u_password = ''h'', u_role = role_admin\<rparr>)],
      teams := [(''t1'', \<lparr>t_id = Some ''t1'', t_name = Some ''red'', t_createdBy = Some ''u1'',
                          practiceTokens = Some (number 2)\<rparr>),
                (''t2'', \<lparr>t_id = Some ''t2'', t_name = Some ''blue'', t_createdBy = Some ''u2'',
                          practiceTokens = Some (number 0)\<rparr>)],
      teamMembers := [(''k1'', \<lparr>tm_id = ''k1'', tm_teamId = ''t1'', tm_userId = ''u1''\<rparr>)],
      competitions := [(''c1'', \<lparr>c_id = ''c1'', c_name = ''cup'', registrationFee = ''10.00'',
                                  maxTeams = Some 2, registrationDeadline = 1000,
                                  isActive = True\<rparr>)],
      matches := [(''m1'', exampleMatch)],
      questions := [(''q1'', \<lparr>q_id = ''q1'', q_competitionId = None, questionText = ''2 + 2'',
                              correctAnswer = ''B'', q_mode = mode_competition,
                              timeLimit = 30\<rparr>)]\<rparr>"

definition exampleServer :: server where
  "exampleServer = \<lparr>data = exampleData, matchRooms = [(jstr ''m1'', [1, 2])], matchStates = [],
     sockets = [(1, OPEN), (2, OPEN), (3, CLOSING)], sent = []\<rparr>"

text \<open>
  The same server after match \<open>m1\<close> was played: the match is completed 3 to 1, both
  teams are registered for the competition and have their standings rows.
\<close>

definition finishedServer :: server where
  "finishedServer = exampleServer
     \<lparr>data := exampleData
        \<lparr>matches := [(''m1'', exampleMatch
                        \<lparr>m_status := Some completed, m_homeScore := Some 3,
                         m_awayScore := Some 1, startedAt := Some 600,
                         m_completedAt := Some 700\<rparr>)],
         competitions := [(''c1'', \<lparr>c_id = ''c1'', c_name = ''cup'', registrationFee = ''10.00'',
                                     maxTeams = Some 4, registrationDeadline = 1000,
                                     isActive = True\<rparr>)],
         teamMembers := [(''k1'', \<lparr>tm_id = ''k1'', tm_teamId = ''t1'', tm_userId = ''u1''\<rparr>),
                         (''k3'', \<lparr>tm_id = ''k3'', tm_teamId = ''t3'', tm_userId = ''u3''\<rparr>)],
         competitionRegistrations :=
           [(''r1'', \<lparr>r_id = ''r1'', r_competitionId = ''c1'', r_teamId = jstr ''t1'',
                      paidBy = ''u1'', r_paymentId = Some ''p1'', registeredAt = 100\<rparr>),
            (''r2'', \<lparr>r_id = ''r2'', r_competitionId = ''c1'', r_teamId = jstr ''t2'',
                      paidBy = ''u2'', r_paymentId = Some ''p2'', registeredAt = 110\<rparr>)],
         standings :=
           [(''s1'', \<lparr>s_id = ''s1'', s_competitionId = ''c1'', s_teamId = jstr ''t1'', played = 0,
                      won = 0, drawn = 0, lost = 0, pointsFor = 0, pointsAgainst = 0,
                      goalDifference = 0, leaguePoints = 0\<rparr>),
            (''s2'', \<lparr>s_id = ''s2'', s_competitionId = ''c1'', s_teamId = jstr ''t2'', played = 0,
                      won = 0, drawn = 0, lost = 0, pointsFor = 0, pointsAgainst = 0,
                      goalDifference = 0, leaguePoints = 0\<rparr>)]\<rparr>\<rparr>"

section \<open>Broadcast and rooms\<close>

lemma readyState_ws_send [simp]: "readyState (ws_send c m s) = readyState s"
  by (simp add: readyState_def ws_send_def fun_eq_iff)

lemma forEachClient_sent:
  "forEachClient message cs s =
     s\<lparr>sent := sent s @ map (\<lambda>c. (c, message)) (filter (\<lambda>c. readyState s c = Some OPEN) cs)\<rparr>"
proof (induction cs arbitrary: s)
  case Nil
  then show ?case by simp
next
  case (Cons c cs)
  show ?case by (simp add: Cons.IH) (simp add: ws_send_def)
qed

lemma broadcastToMatch_eq:
  "broadcastToMatch matchId message s =
     s\<lparr>sent := sent s @ map (\<lambda>c. (c, message))
                        (filter (\<lambda>c. readyState s c = Some OPEN) (roomOf s matchId))\<rparr>"
  by (simp add: broadcastToMatch_def roomOf_def forEachClient_sent split: option.split)

text \<open>
  C5. \<open>broadcastToMatch\<close> calls \<open>send\<close> with the message once for each socket of the
  room of the match id whose \<open>readyState\<close> is \<open>OPEN\<close>, in the room's order, and for no
  other socket: a socket that is not in this room receives nothing, whatever other room
  holds it. The rooms, the match states, the sockets and the data stay as they were.
\<close>

theorem broadcastToMatch_recipients:
  "sent (broadcastToMatch matchId message s) =
     sent s @ map (\<lambda>c. (c, message))
                (filter (\<lambda>c. readyState s c = Some OPEN) (roomOf s matchId))
   \<and> matchRooms (broadcastToMatch matchId message s) = matchRooms s
   \<and> matchStates (broadcastToMatch matchId message s) = matchStates s
   \<and> sockets (broadcastToMatch matchId message s) = sockets s
   \<and> data (broadcastToMatch matchId message s) = data s"
  by (simp add: broadcastToMatch_eq)

section \<open>Joining a match\<close>

lemma map_entry_id: "map_of al k = Some v \<Longrightarrow> f v = v \<Longrightarrow> AList.map_entry k f al = al"
  by (induction al) (auto split: if_splits)

lemma joinMatch_rooms:
  "map_of (matchRooms (joinMatch c k s)) =
     (map_of (matchRooms s))(k \<mapsto> Set_add c (roomOf s k))"
  by (auto simp: joinMatch_def Let_def ws_send_def roomOf_def map_of_map_entry update_conv' fun_eq_iff
      split: option.splits)

lemma joinMatch_rejoin:
  "c \<in> set (roomOf s k) \<Longrightarrow> matchRooms (joinMatch c k s) = matchRooms s"
  by (auto simp: joinMatch_def Let_def ws_send_def map_entry_id Set_add_def roomOf_def
      split: option.splits)

lemma joinMatch_frame:
  "matchStates (joinMatch c k s) = matchStates s \<and> data (joinMatch c k s) = data s
   \<and> sockets (joinMatch c k s) = sockets s
   \<and> sent (joinMatch c k s) =
       sent s @ [(c, stateMessage (case map_of (matchStates s) k of
                                     Some st \<Rightarrow> st | None \<Rightarrow> defaultState))]"
  by (simp add: joinMatch_def Let_def ws_send_def)

text \<open>
  C9. A \<open>join_match\<close> message adds the socket to the room of the match id: an absent
  room is created with the socket as its only member, a socket that is already a member
  leaves \<open>matchRooms\<close> as it was, and no other room changes. The server replies to the
  socket with one \<open>match_state\<close> message that carries the stored state of the match or,
  when none is stored, status \<open>waiting\<close>, question 0, scores 0 and 0 and 30 seconds;
  \<open>matchStates\<close> is not written.
\<close>

theorem join_match_room_and_reply:
  "map_of (matchRooms (onMessage c (join_match matchId userId) nid now s)) =
     (map_of (matchRooms s))
       (matchId \<mapsto> (case map_of (matchRooms s) matchId of
                       None \<Rightarrow> [c]
                     | Some clients \<Rightarrow> if c \<in> set clients then clients else clients @ [c]))
   \<and> (c \<in> set (roomOf s matchId) \<longrightarrow>
        matchRooms (onMessage c (join_match matchId userId) nid now s) = matchRooms s)
   \<and> sent (onMessage c (join_match matchId userId) nid now s) =
        sent s @ [(c, case map_of (matchStates s) matchId of
                        Some st \<Rightarrow> msg_match_state (status st) (currentQuestion st)
                                     (Some (homeScore st)) (Some (awayScore st))
                                     (Some (timeRemaining st))
                      | None \<Rightarrow> msg_match_state waiting 0 (Some 0) (Some 0) (Some 30))]
   \<and> matchStates (onMessage c (join_match matchId userId) nid now s) = matchStates s
   \<and> data (onMessage c (join_match matchId userId) nid now s) = data s
   \<and> sockets (onMessage c (join_match matchId userId) nid now s) = sockets s"
  by (simp add: joinMatch_rooms joinMatch_rejoin joinMatch_frame stateMessage_def
      defaultState_def roomOf_def Set_add_def split: option.split)

theorem join_match_room_and_reply_witness:
  "2 \<in> set (roomOf exampleServer (jstr ''m1''))
   \<and> matchRooms (onMessage 2 (join_match (jstr ''m1'') (jstr ''u1'')) ''n1'' 7 exampleServer)
       = [(jstr ''m1'', [1, 2])]
   \<and> sent (onMessage 2 (join_match (jstr ''m1'') (jstr ''u1'')) ''n1'' 7 exampleServer) =
        [(2, msg_match_state waiting 0 (Some 0) (Some 0) (Some 30))]"
  using join_match_room_and_reply [of 2 "jstr ''m1''" "jstr ''u1''" "''n1''" 7 exampleServer]
  by (simp add: exampleServer_def roomOf_def)

section \<open>What a step leaves alone\<close>

lemma set_update_subset: "set (AList.update k v al) \<subseteq> insert (k, v) (set al)"
  by (induction al) auto

lemma set_map_entry:
  "(k', v') \<in> set (AList.map_entry k f al) \<Longrightarrow>
   (k', v') \<in> set al \<or> (\<exists>v. (k, v) \<in> set al \<and> k' = k \<and> v' = f v)"
  by (induction al) (auto split: if_splits)

lemma closeRooms_eq:
  "closeRooms c rooms =
     filter (\<lambda>(matchId, clients). clients \<noteq> [])
       (map (\<lambda>(matchId, clients). (matchId, removeAll c clients)) rooms)"
  by (induction rooms) (auto simp: Let_def)

lemma updateMatch_frame:
  "standings (snd (updateMatch k upd d)) = standings d
   \<and> playerAnswers (snd (updateMatch k upd d)) = playerAnswers d"
  by (simp add: updateMatch_def setMatch_def Let_def split: lookup.splits)

lemma updateMatch_completed:
  assumes "map_of (matches (snd (updateMatch k upd d))) j = Some m"
    and "m_status m = Some completed"
    and "\<And>x. m_status (upd x) = Some completed \<Longrightarrow> m_status x = Some completed"
  shows "\<exists>m0. map_of (matches d) j = Some m0 \<and> m_status m0 = Some completed"
proof (cases "getMatch d k")
  case absent
  then show ?thesis using assms by (simp add: updateMatch_def)
next
  case (stored v)
  show ?thesis
  proof (cases "k = ''__proto__''")
    case True
    then show ?thesis using assms stored
      by (simp add: updateMatch_def setMatch_def Let_def)
  next
    case False
    then have own: "map_of (matches d) k = Some v"
      using stored by (auto simp: getMatch_def getProp_def split: option.splits if_splits)
    show ?thesis
    proof (cases "j = k")
      case True
      then have "m = upd v" using assms(1) stored False
        by (simp add: updateMatch_def setMatch_def Let_def update_conv')
      then have "m_status v = Some completed" using assms(2,3) by simp
      then show ?thesis using own True by simp
    next
      case False
      then show ?thesis using assms stored \<open>k \<noteq> ''__proto__''\<close>
        by (simp add: updateMatch_def setMatch_def Let_def update_conv')
    qed
  qed
next
  case inherited
  show ?thesis
  proof (cases "k = ''__proto__''")
    case True
    then show ?thesis using assms inherited
      by (simp add: updateMatch_def setMatch_def Let_def)
  next
    case False
    show ?thesis
    proof (cases "j = k")
      case True
      then have "m = upd emptyMatch" using assms(1) inherited False
        by (simp add: updateMatch_def setMatch_def Let_def update_conv')
      then have "m_status emptyMatch = Some completed" using assms(2,3) by simp
      then show ?thesis by (simp add: emptyMatch_def)
    next
      case False
      then show ?thesis using assms inherited \<open>k \<noteq> ''__proto__''\<close>
        by (simp add: updateMatch_def setMatch_def Let_def update_conv')
    qed
  qed
qed

text \<open>The shape of the state after a \<open>submit_answer\<close> message.\<close>

lemma submitAnswerMessage_shape:
  "submitAnswerMessage c matchId userId questionId answer teamId taken nid now s = s
   \<or> (\<exists>newAnswer hs as msgs.
        submitAnswerMessage c matchId userId questionId answer teamId taken nid now s =
          s\<lparr>data := snd (updateMatch (keyOf matchId)
                       (\<lambda>m. m\<lparr>m_homeScore := Some hs, m_awayScore := Some as\<rparr>)
                       ((data s)\<lparr>playerAnswers :=
                                   AList.update nid newAnswer (playerAnswers (data s))\<rparr>)),
            matchStates := (case map_of (matchStates s) matchId of
                              None \<Rightarrow> matchStates s
                            | Some st \<Rightarrow> AList.update matchId
                                          (st\<lparr>homeScore := hs, awayScore := as\<rparr>)
                                          (matchStates s)),
            sent := sent s @ msgs\<rparr>)"
proof (cases "getQuestion (data s) (keyOf questionId) = absent
    \<or> getMatch (data s) (keyOf matchId) = absent")
  case True
  then have "submitAnswerMessage c matchId userId questionId answer teamId taken nid now s = s"
    by (auto simp: submitAnswerMessage_def split: lookup.splits)
  then show ?thesis by simp
next
  case False
  obtain hs as where sc: "scoreLoop (spread emptyMatch (getMatch (data s) (keyOf matchId)))
      (getAnswersByMatch (snd (submitAnswer nid now
         \<lparr>pa_id = [], pa_matchId = matchId, pa_questionId = questionId,
          pa_userId = userId, pa_teamId = teamId, pa_answer = answer,
          isCorrect = (answer = correctAnswerOf (getQuestion (data s) (keyOf questionId))),
          answeredAt = 0, timeTaken = taken\<rparr> (data s))) matchId) (0, 0) = (hs, as)"
    by (cases "scoreLoop (spread emptyMatch (getMatch (data s) (keyOf matchId)))
      (getAnswersByMatch (snd (submitAnswer nid now
         \<lparr>pa_id = [], pa_matchId = matchId, pa_questionId = questionId,
          pa_userId = userId, pa_teamId = teamId, pa_answer = answer,
          isCorrect = (answer = correctAnswerOf (getQuestion (data s) (keyOf questionId))),
          answeredAt = 0, timeTaken = taken\<rparr> (data s))) matchId) (0, 0)") auto
  have "submitAnswerMessage c matchId userId questionId answer teamId taken nid now s =
          s\<lparr>data := snd (updateMatch (keyOf matchId)
                       (\<lambda>m. m\<lparr>m_homeScore := Some hs, m_awayScore := Some as\<rparr>)
                       ((data s)\<lparr>playerAnswers := AList.update nid
                          \<lparr>pa_id = nid, pa_matchId = matchId, pa_questionId = questionId,
                           pa_userId = userId, pa_teamId = teamId, pa_answer = answer,
                           isCorrect = (answer = correctAnswerOf
                              (getQuestion (data s) (keyOf questionId))),
                           answeredAt = now, timeTaken = taken\<rparr>
                          (playerAnswers (data s))\<rparr>)),
            matchStates := (case map_of (matchStates s) matchId of
                              None \<Rightarrow> matchStates s
                            | Some st \<Rightarrow> AList.update matchId
                                          (st\<lparr>homeScore := hs, awayScore := as\<rparr>)
                                          (matchStates s)),
            sent := sent s @ (c, msg_answer_result (answer = correctAnswerOf
                              (getQuestion (data s) (keyOf questionId)))) #
              map (\<lambda>c'. (c', msg_score_update
                    (getPlayerScoresByMatch (snd (updateMatch (keyOf matchId)
                       (\<lambda>m. m\<lparr>m_homeScore := Some hs, m_awayScore := Some as\<rparr>)
                       ((data s)\<lparr>playerAnswers := AList.update nid
                          \<lparr>pa_id = nid, pa_matchId = matchId, pa_questionId = questionId,
                           pa_userId = userId, pa_teamId = teamId, pa_answer = answer,
                           isCorrect = (answer = correctAnswerOf
                              (getQuestion (data s) (keyOf questionId))),
                           answeredAt = now, timeTaken = taken\<rparr>
                          (playerAnswers (data s))\<rparr>))) matchId) hs as))
                (filter (\<lambda>c'. readyState s c' = Some OPEN) (roomOf s matchId))\<rparr>"
    using False sc
    by (auto simp: submitAnswerMessage_def Let_def submitAnswer_def broadcastToMatch_eq
        ws_send_def readyState_def roomOf_def getMatch_def
        split: lookup.splits option.splits)
  then show ?thesis by blast
qed

lemma submitAnswerMessage_frame:
  "matchRooms (submitAnswerMessage c matchId userId questionId answer teamId taken nid now s)
     = matchRooms s
   \<and> sockets (submitAnswerMessage c matchId userId questionId answer teamId taken nid now s)
     = sockets s
   \<and> standings (data (submitAnswerMessage c matchId userId questionId answer teamId taken nid now s))
     = standings (data s)"
  using submitAnswerMessage_shape [of c matchId userId questionId answer teamId taken nid now s]
  by (auto simp: updateMatch_frame)

lemma submitAnswerMessage_states:
  assumes "(k, st) \<in> set (matchStates
      (submitAnswerMessage c matchId userId questionId answer teamId taken nid now s))"
  shows "\<exists>st0. (k, st0) \<in> set (matchStates s) \<and> currentQuestion st = currentQuestion st0
      \<and> status st = status st0 \<and> timeRemaining st = timeRemaining st0"
proof -
  from submitAnswerMessage_shape [of c matchId userId questionId answer teamId taken nid now s]
  show ?thesis
  proof (elim disjE exE)
    assume "submitAnswerMessage c matchId userId questionId answer teamId taken nid now s = s"
    then show ?thesis using assms by auto
  next
    fix newAnswer hs as msgs
    assume eq: "submitAnswerMessage c matchId userId questionId answer teamId taken nid now s =
          s\<lparr>data := snd (updateMatch (keyOf matchId)
                       (\<lambda>m. m\<lparr>m_homeScore := Some hs, m_awayScore := Some as\<rparr>)
                       ((data s)\<lparr>playerAnswers :=
                                   AList.update nid newAnswer (playerAnswers (data s))\<rparr>)),
            matchStates := (case map_of (matchStates s) matchId of
                              None \<Rightarrow> matchStates s
                            | Some st \<Rightarrow> AList.update matchId
                                          (st\<lparr>homeScore := hs, awayScore := as\<rparr>)
                                          (matchStates s)),
            sent := sent s @ msgs\<rparr>"
    show ?thesis
    proof (cases "map_of (matchStates s) matchId")
      case None
      then show ?thesis using assms eq by auto
    next
      case (Some st0)
      then have in0: "(matchId, st0) \<in> set (matchStates s)" by (rule map_of_SomeD)
      from assms eq Some have "(k, st) \<in> set (AList.update matchId
          (st0\<lparr>homeScore := hs, awayScore := as\<rparr>) (matchStates s))"
        by simp
      then show ?thesis using set_update_subset in0 by fastforce
    qed
  qed
qed

lemma submitAnswerMessage_matches:
  assumes "map_of (matches (data
      (submitAnswerMessage c matchId userId questionId answer teamId taken nid now s))) k = Some m"
    and "m_status m = Some completed"
  shows "\<exists>m0. map_of (matches (data s)) k = Some m0 \<and> m_status m0 = Some completed"
proof -
  from submitAnswerMessage_shape [of c matchId userId questionId answer teamId taken nid now s]
  show ?thesis
  proof (elim disjE exE)
    assume "submitAnswerMessage c matchId userId questionId answer teamId taken nid now s = s"
    then show ?thesis using assms by auto
  next
    fix newAnswer hs as msgs
    assume eq: "submitAnswerMessage c matchId userId questionId answer teamId taken nid now s =
          s\<lparr>data := snd (updateMatch (keyOf matchId)
                       (\<lambda>m. m\<lparr>m_homeScore := Some hs, m_awayScore := Some as\<rparr>)
                       ((data s)\<lparr>playerAnswers :=
                                   AList.update nid newAnswer (playerAnswers (data s))\<rparr>)),
            matchStates := (case map_of (matchStates s) matchId of
                              None \<Rightarrow> matchStates s
                            | Some st \<Rightarrow> AList.update matchId
                                          (st\<lparr>homeScore := hs, awayScore := as\<rparr>)
                                          (matchStates s)),
            sent := sent s @ msgs\<rparr>"
    from assms(1) eq have "map_of (matches (snd (updateMatch (keyOf matchId)
                       (\<lambda>m. m\<lparr>m_homeScore := Some hs, m_awayScore := Some as\<rparr>)
                       ((data s)\<lparr>playerAnswers :=
                                   AList.update nid newAnswer (playerAnswers (data s))\<rparr>)))) k
        = Some m"
      by simp
    from updateMatch_completed [OF this assms(2)] show ?thesis by simp
  qed
qed

lemma requireAuth_cases:
  "requireAuth session next s = ((401, body_message ''Unauthorized''), s)
   \<or> (\<exists>userId. authenticated session userId \<and> requireAuth session next s = next userId s)"
  by (auto simp: requireAuth_def authenticated_def split: option.splits)

lemma requireAdmin_cases:
  "snd (requireAdmin session next s) = s
   \<or> (\<exists>userId. requireAdmin session next s = next userId s)"
  by (auto simp: requireAdmin_def split: option.splits lookup.splits)

lemma registerHandler_frame:
  "matchRooms (snd (registerHandler competitionId teamId t1 t2 t3 t4 pid rid sid userId s))
     = matchRooms s
   \<and> sockets (snd (registerHandler competitionId teamId t1 t2 t3 t4 pid rid sid userId s))
     = sockets s
   \<and> matchStates (snd (registerHandler competitionId teamId t1 t2 t3 t4 pid rid sid userId s))
     = matchStates s
   \<and> sent (snd (registerHandler competitionId teamId t1 t2 t3 t4 pid rid sid userId s)) = sent s
   \<and> matches (data (snd (registerHandler competitionId teamId t1 t2 t3 t4 pid rid sid userId s)))
       = matches (data s)"
  by (simp add: registerHandler_def Let_def createPayment_def registerTeam_def createStanding_def
      split: lookup.splits)

lemma updateTeam_frame:
  "matches (snd (updateTeam k upd d)) = matches d
   \<and> standings (snd (updateTeam k upd d)) = standings d"
  by (simp add: updateTeam_def setTeam_def Let_def split: lookup.splits)

lemma practiceStartHandler_frame:
  "matchRooms (snd (practiceStartHandler teamId type t1 t2 tid sid shuffle userId s)) = matchRooms s
   \<and> sockets (snd (practiceStartHandler teamId type t1 t2 tid sid shuffle userId s)) = sockets s
   \<and> matchStates (snd (practiceStartHandler teamId type t1 t2 tid sid shuffle userId s))
       = matchStates s
   \<and> sent (snd (practiceStartHandler teamId type t1 t2 tid sid shuffle userId s)) = sent s
   \<and> matches (data (snd (practiceStartHandler teamId type t1 t2 tid sid shuffle userId s)))
       = matches (data s)
   \<and> standings (data (snd (practiceStartHandler teamId type t1 t2 tid sid shuffle userId s)))
       = standings (data s)"
  by (simp add: practiceStartHandler_def Let_def updateTeam_frame createTokenTransaction_def
      createPracticeSession_def split: lookup.splits)

lemma matchStartHandler_frame:
  "matchRooms (snd (matchStartHandler matchId now userId s)) = matchRooms s
   \<and> sockets (snd (matchStartHandler matchId now userId s)) = sockets s
   \<and> standings (data (snd (matchStartHandler matchId now userId s))) = standings (data s)
   \<and> matchStates (snd (matchStartHandler matchId now userId s)) =
       AList.update (jstr matchId) \<lparr>status = live, currentQuestion = 0, homeScore = 0,
         awayScore = 0, timeRemaining = 30\<rparr> (matchStates s)"
  by (simp add: matchStartHandler_def Let_def broadcastToMatch_eq updateMatch_frame)

lemma step_http_frame:
  assumes "e = ev_register session competitionId teamId t1 t2 t3 t4 pid rid sid
         \<or> e = ev_practice_start session teamId2 type u1 u2 tid sid2 shuffle
         \<or> e = ev_match_start session matchId now"
  shows "matchRooms (step e s) = matchRooms s \<and> sockets (step e s) = sockets s"
  using assms
    requireAuth_cases [of session "registerHandler competitionId teamId t1 t2 t3 t4 pid rid sid" s]
    requireAuth_cases [of session "practiceStartHandler teamId2 type u1 u2 tid sid2 shuffle" s]
    requireAdmin_cases [of session "matchStartHandler matchId now" s]
  by (auto simp: postRegister_def postPracticeStart_def postMatchStart_def
      registerHandler_frame practiceStartHandler_frame matchStartHandler_frame)

section \<open>The rooms over a run\<close>

lemma update_append: "map_of al k = None \<Longrightarrow> AList.update k v al = al @ [(k, v)]"
  by (induction al) (auto split: if_splits)

lemma map_entry_append:
  "map_of al k = None \<Longrightarrow> AList.map_entry k f (al @ [(k, v)]) = al @ [(k, f v)]"
  by (induction al) (auto split: if_splits)

lemma joinMatch_rooms_cases:
  "matchRooms (joinMatch c k s) =
     (if map_of (matchRooms s) k = None then matchRooms s @ [(k, [c])]
      else AList.map_entry k (Set_add c) (matchRooms s))"
  by (simp add: joinMatch_def Let_def ws_send_def update_append map_entry_append Set_add_def)

lemma roomsInv_iff:
  "roomsInv s \<longleftrightarrow>
     (\<forall>(k, cs) \<in> set (matchRooms s). cs \<noteq> [] \<and> (\<forall>c \<in> set cs. connected s c))"
  by (auto simp: roomsInv_def list_all_iff)

lemma connected_cong: "sockets s' = sockets s \<Longrightarrow> connected s' c = connected s c"
  by (simp add: connected_def readyState_def)

lemma connected_not_closed: "connected s c \<Longrightarrow> readyState s c \<noteq> Some CLOSED"
  by (auto simp: connected_def)

lemma roomsInv_cong:
  "roomsInv s \<Longrightarrow> matchRooms s' = matchRooms s \<and> sockets s' = sockets s \<Longrightarrow> roomsInv s'"
  by (simp add: roomsInv_iff connected_def readyState_def)

lemma roomsInv_joinMatch:
  assumes inv: "roomsInv s" and c: "connected s c"
  shows "roomsInv (joinMatch c k s)"
proof -
  have sock: "\<And>c'. connected (joinMatch c k s) c' = connected s c'"
    by (rule connected_cong) (simp add: joinMatch_frame)
  show ?thesis
  proof (cases "map_of (matchRooms s) k")
    case None
    then show ?thesis using inv c
      by (auto simp: roomsInv_iff sock joinMatch_rooms_cases)
  next
    case (Some cs)
    have "\<And>k' cs'. (k', cs') \<in> set (AList.map_entry k (Set_add c) (matchRooms s)) \<Longrightarrow>
        cs' \<noteq> [] \<and> (\<forall>c' \<in> set cs'. connected s c')"
    proof -
      fix k' cs'
      assume "(k', cs') \<in> set (AList.map_entry k (Set_add c) (matchRooms s))"
      then consider "(k', cs') \<in> set (matchRooms s)"
        | v where "(k, v) \<in> set (matchRooms s)" "cs' = Set_add c v"
        using set_map_entry by fastforce
      then show "cs' \<noteq> [] \<and> (\<forall>c' \<in> set cs'. connected s c')"
      proof cases
        case 1
        then show ?thesis using inv by (auto simp: roomsInv_iff)
      next
        case 2
        then show ?thesis using inv c by (auto simp: roomsInv_iff Set_add_def)
      qed
    qed
    then show ?thesis using Some
      by (auto simp: roomsInv_iff sock joinMatch_rooms_cases)
  qed
qed

lemma roomsInv_onMessage:
  assumes inv: "roomsInv s" and c: "connected s c"
  shows "roomsInv (onMessage c message nid now s)"
proof (cases message)
  case (join_match k u)
  then show ?thesis using roomsInv_joinMatch [OF inv c] by simp
next
  case (submit_answer k u q a t tk)
  then show ?thesis using roomsInv_cong [OF inv] submitAnswerMessage_frame
    by simp
next
  case other_message
  then show ?thesis using inv by simp
qed

lemma roomsInv_close:
  assumes inv: "roomsInv s"
  shows "roomsInv (onClose c (s\<lparr>sockets := AList.update c CLOSED (sockets s)\<rparr>))"
proof -
  have "\<And>c'. c' \<noteq> c \<Longrightarrow> connected s c' \<Longrightarrow>
      connected (onClose c (s\<lparr>sockets := AList.update c CLOSED (sockets s)\<rparr>)) c'"
    by (simp add: connected_def readyState_def onClose_def update_conv')
  then show ?thesis using inv
    by (auto simp: roomsInv_iff onClose_def closeRooms_eq)
qed

lemma roomsInv_step: "roomsInv s \<Longrightarrow> roomsInv (step e s)"
proof (cases e)
  case (ev_connection c)
  assume inv: "roomsInv s"
  have "\<And>c'. connected s c' \<Longrightarrow> connected (s\<lparr>sockets := AList.update c OPEN (sockets s)\<rparr>) c'"
    by (simp add: connected_def readyState_def update_conv')
  then show ?thesis using inv ev_connection by (auto simp: roomsInv_iff)
next
  case (ev_message c message nid now)
  assume "roomsInv s"
  then show ?thesis using ev_message by (simp add: roomsInv_onMessage)
next
  case (ev_closing c)
  assume inv: "roomsInv s"
  have "\<And>c'. connected s c' \<Longrightarrow> connected (s\<lparr>sockets := AList.update c CLOSING (sockets s)\<rparr>) c'"
    by (simp add: connected_def readyState_def update_conv')
  then show ?thesis using inv ev_closing by (auto simp: roomsInv_iff)
next
  case (ev_close c)
  assume "roomsInv s"
  then show ?thesis using ev_close by (simp add: roomsInv_close)
next
  case (ev_register session competitionId teamId t1 t2 t3 t4 pid rid sid)
  assume inv: "roomsInv s"
  have "matchRooms (step e s) = matchRooms s \<and> sockets (step e s) = sockets s"
    using ev_register by (intro step_http_frame) simp
  with inv show ?thesis by (rule roomsInv_cong)
next
  case (ev_practice_start session teamId type t1 t2 tid sid shuffle)
  assume inv: "roomsInv s"
  have "matchRooms (step e s) = matchRooms s \<and> sockets (step e s) = sockets s"
    using ev_practice_start by (intro step_http_frame) simp
  with inv show ?thesis by (rule roomsInv_cong)
next
  case (ev_match_start session matchId now)
  assume inv: "roomsInv s"
  have "matchRooms (step e s) = matchRooms s \<and> sockets (step e s) = sockets s"
    using ev_match_start by (intro step_http_frame) simp
  with inv show ?thesis by (rule roomsInv_cong)
qed

lemma roomsInv_run: "roomsInv s \<Longrightarrow> roomsInv (run es s)"
  by (induction es arbitrary: s) (simp_all add: roomsInv_step)

text \<open>
  C4. The \<open>close\<close> handler removes the closed socket from every room and deletes every
  room that is then empty. With the library's events (a socket is set to \<open>CLOSED\<close> just
  before its \<open>close\<close> handler runs, and delivers no message after that), every state the
  server reaches from one with no rooms has only non-empty rooms, and no member of a
  room is a closed socket.
\<close>

theorem close_cleanup_and_rooms_invariant:
  "matchRooms (onClose c s) =
     filter (\<lambda>(matchId, clients). clients \<noteq> [])
       (map (\<lambda>(matchId, clients). (matchId, removeAll c clients)) (matchRooms s))
   \<and> (matchRooms s = [] \<longrightarrow>
        list_all (\<lambda>(matchId, clients). clients \<noteq> [] \<and>
                    list_all (\<lambda>c'. readyState (run es s) c' \<noteq> Some CLOSED) clients)
          (matchRooms (run es s)))"
proof (intro conjI impI)
  show "matchRooms (onClose c s) =
     filter (\<lambda>(matchId, clients). clients \<noteq> [])
       (map (\<lambda>(matchId, clients). (matchId, removeAll c clients)) (matchRooms s))"
    by (simp add: onClose_def closeRooms_eq)
next
  assume "matchRooms s = []"
  then have "roomsInv s" by (simp add: roomsInv_def)
  then have "roomsInv (run es s)" by (rule roomsInv_run)
  then have inv: "\<forall>(k, cs) \<in> set (matchRooms (run es s)).
      cs \<noteq> [] \<and> (\<forall>c' \<in> set cs. connected (run es s) c')"
    by (simp add: roomsInv_iff)
  have "\<And>k cs. (k, cs) \<in> set (matchRooms (run es s)) \<Longrightarrow>
      cs \<noteq> [] \<and> (\<forall>c' \<in> set cs. readyState (run es s) c' \<noteq> Some CLOSED)"
  proof -
    fix k cs
    assume "(k, cs) \<in> set (matchRooms (run es s))"
    with inv have "cs \<noteq> [] \<and> (\<forall>c' \<in> set cs. connected (run es s) c')" by blast
    then show "cs \<noteq> [] \<and> (\<forall>c' \<in> set cs. readyState (run es s) c' \<noteq> Some CLOSED)"
      using connected_not_closed by blast
  qed
  then show "list_all (\<lambda>(matchId, clients). clients \<noteq> [] \<and>
                    list_all (\<lambda>c'. readyState (run es s) c' \<noteq> Some CLOSED) clients)
          (matchRooms (run es s))"
    by (auto simp: list_all_iff)
qed

theorem close_cleanup_and_rooms_invariant_witness:
  "matchRooms initServer = []
   \<and> matchRooms (run [ev_connection 1, ev_connection 2,
          ev_message 1 (join_match (jstr ''m1'') (jstr ''u1'')) ''n1'' 1,
          ev_message 2 (join_match (jstr ''m1'') (jstr ''u2'')) ''n2'' 2,
          ev_message 1 (join_match (jstr ''m2'') (jstr ''u1'')) ''n3'' 3] initServer)
       = [(jstr ''m1'', [1, 2]), (jstr ''m2'', [1])]
   \<and> matchRooms (run [ev_connection 1, ev_connection 2,
          ev_message 1 (join_match (jstr ''m1'') (jstr ''u1'')) ''n1'' 1,
          ev_message 2 (join_match (jstr ''m1'') (jstr ''u2'')) ''n2'' 2,
          ev_message 1 (join_match (jstr ''m2'') (jstr ''u1'')) ''n3'' 3,
          ev_close 1, ev_message 1 (join_match (jstr ''m1'') (jstr ''u1'')) ''n4'' 4] initServer)
       = [(jstr ''m1'', [2])]
   \<and> readyState (run [ev_connection 1, ev_connection 2,
          ev_message 1 (join_match (jstr ''m1'') (jstr ''u1'')) ''n1'' 1,
          ev_message 2 (join_match (jstr ''m1'') (jstr ''u2'')) ''n2'' 2,
          ev_message 1 (join_match (jstr ''m2'') (jstr ''u1'')) ''n3'' 3,
          ev_close 1, ev_message 1 (join_match (jstr ''m1'') (jstr ''u1'')) ''n4'' 4] initServer) 2 = Some OPEN"
  using close_cleanup_and_rooms_invariant [of 1 initServer
      "[ev_connection 1, ev_connection 2,
          ev_message 1 (join_match (jstr ''m1'') (jstr ''u1'')) ''n1'' 1,
          ev_message 2 (join_match (jstr ''m1'') (jstr ''u2'')) ''n2'' 2,
          ev_message 1 (join_match (jstr ''m2'') (jstr ''u1'')) ''n3'' 3,
          ev_close 1, ev_message 1 (join_match (jstr ''m1'') (jstr ''u1'')) ''n4'' 4]"]
  by (simp add: initServer_def readyState_def connected_def joinMatch_def Let_def ws_send_def
      Set_add_def onClose_def)

section \<open>The in-memory match states over a run\<close>

lemma onClose_frame:
  "matchStates (onClose c s) = matchStates s \<and> data (onClose c s) = data s"
  by (simp add: onClose_def)

lemma postMatchStart_cases:
  "snd (postMatchStart session matchId now s) = s
   \<or> (\<exists>userId. snd (postMatchStart session matchId now s) = snd (matchStartHandler matchId now userId s))"
  using requireAdmin_cases [of session "matchStartHandler matchId now" s]
  by (auto simp: postMatchStart_def)

lemma postRegister_cases:
  "snd (postRegister session competitionId teamId t1 t2 t3 t4 pid rid sid s) = s
   \<or> (\<exists>userId. snd (postRegister session competitionId teamId t1 t2 t3 t4 pid rid sid s)
          = snd (registerHandler competitionId teamId t1 t2 t3 t4 pid rid sid userId s))"
  using requireAuth_cases [of session "registerHandler competitionId teamId t1 t2 t3 t4 pid rid sid" s]
  by (auto simp: postRegister_def)

lemma postPracticeStart_cases:
  "snd (postPracticeStart session teamId type t1 t2 tid sid shuffle s) = s
   \<or> (\<exists>userId. snd (postPracticeStart session teamId type t1 t2 tid sid shuffle s)
          = snd (practiceStartHandler teamId type t1 t2 tid sid shuffle userId s))"
  using requireAuth_cases [of session "practiceStartHandler teamId type t1 t2 tid sid shuffle" s]
  by (auto simp: postPracticeStart_def)

lemma currentQuestion_step:
  assumes inv: "\<forall>(k, st) \<in> set (matchStates s). currentQuestion st = 0"
  shows "\<forall>(k, st) \<in> set (matchStates (step e s)). currentQuestion st = 0"
proof (cases e)
  case (ev_connection c)
  then show ?thesis using inv by simp
next
  case (ev_message c message nid now)
  show ?thesis
  proof (cases message)
    case (join_match k u)
    then show ?thesis using inv ev_message by (simp add: joinMatch_frame)
  next
    case (submit_answer k u q a t tk)
    have "\<And>k' st'. (k', st') \<in> set (matchStates (submitAnswerMessage c k u q a t tk nid now s))
        \<Longrightarrow> currentQuestion st' = 0"
    proof -
      fix k' st'
      assume "(k', st') \<in> set (matchStates (submitAnswerMessage c k u q a t tk nid now s))"
      then obtain st0 where "(k', st0) \<in> set (matchStates s)"
          "currentQuestion st' = currentQuestion st0"
        using submitAnswerMessage_states by blast
      then show "currentQuestion st' = 0" using inv by auto
    qed
    then show ?thesis using inv ev_message submit_answer by auto
  next
    case other_message
    then show ?thesis using inv ev_message by simp
  qed
next
  case (ev_closing c)
  then show ?thesis using inv by simp
next
  case (ev_close c)
  then show ?thesis using inv by (simp add: onClose_frame)
next
  case (ev_register session competitionId teamId t1 t2 t3 t4 pid rid sid)
  then show ?thesis
    using inv postRegister_cases [of session competitionId teamId t1 t2 t3 t4 pid rid sid s]
    by (auto simp: registerHandler_frame)
next
  case (ev_practice_start session teamId type t1 t2 tid sid shuffle)
  then show ?thesis
    using inv postPracticeStart_cases [of session teamId type t1 t2 tid sid shuffle s]
    by (auto simp: practiceStartHandler_frame)
next
  case (ev_match_start session matchId now)
  have started: "\<And>userId. \<forall>(k, st) \<in> set (matchStates (snd (matchStartHandler matchId now userId s))).
          currentQuestion st = 0"
    using inv set_update_subset [of "jstr matchId" _ "matchStates s"]
    by (fastforce simp: matchStartHandler_frame)
  from postMatchStart_cases [of session matchId now s] show ?thesis
  proof (elim disjE exE)
    assume "snd (postMatchStart session matchId now s) = s"
    then show ?thesis using inv ev_match_start by simp
  next
    fix userId
    assume "snd (postMatchStart session matchId now s) = snd (matchStartHandler matchId now userId s)"
    then show ?thesis using started [of userId] ev_match_start by simp
  qed
qed

lemma currentQuestion_run:
  "\<forall>(k, st) \<in> set (matchStates s). currentQuestion st = 0 \<Longrightarrow>
   \<forall>(k, st) \<in> set (matchStates (run es s)). currentQuestion st = 0"
proof (induction es arbitrary: s)
  case Nil
  then show ?case by simp
next
  case (Cons e es)
  from Cons.prems have "\<forall>(k, st) \<in> set (matchStates (step e s)). currentQuestion st = 0"
    by (rule currentQuestion_step)
  then have "\<forall>(k, st) \<in> set (matchStates (run es (step e s))). currentQuestion st = 0"
    by (rule Cons.IH)
  then show ?case by simp
qed

text \<open>
  C6 (as amended). The in-memory state of a match records no question progression:
  from any server state without stored match states (as when the server starts), after
  every sequence of events, every stored match state has \<open>currentQuestion = 0\<close>. The
  match start stores 0, and no WebSocket message and no route writes the field.
\<close>

theorem currentQuestion_stays_zero:
  "matchStates s = [] \<and> map_of (matchStates (run es s)) matchId = Some st \<longrightarrow>
     currentQuestion st = 0"
proof
  assume a: "matchStates s = [] \<and> map_of (matchStates (run es s)) matchId = Some st"
  then have "\<forall>(k, st) \<in> set (matchStates s). currentQuestion st = 0" by simp
  then have "\<forall>(k, st) \<in> set (matchStates (run es s)). currentQuestion st = 0"
    by (rule currentQuestion_run)
  moreover have "(matchId, st) \<in> set (matchStates (run es s))"
    using a by (simp add: map_of_SomeD)
  ultimately show "currentQuestion st = 0" by blast
qed

text \<open>
  The claim as first stated, that some sequence of a match start and WebSocket messages
  makes \<open>currentQuestion\<close> differ from 0, has no instance.
\<close>

theorem currentQuestion_progress_counterexample:
  "\<not> (\<exists>s es matchId st. matchStates s = [] \<and> map_of (matchStates (run es s)) matchId = Some st
         \<and> currentQuestion st \<noteq> 0)"
proof
  assume "\<exists>s es matchId st. matchStates s = [] \<and> map_of (matchStates (run es s)) matchId = Some st
         \<and> currentQuestion st \<noteq> 0"
  then obtain s es matchId st where a: "matchStates s = []"
      "map_of (matchStates (run es s)) matchId = Some st" "currentQuestion st \<noteq> 0"
    by blast
  from a(1) have "\<forall>(k, st) \<in> set (matchStates s). currentQuestion st = 0" by simp
  then have "\<forall>(k, st) \<in> set (matchStates (run es s)). currentQuestion st = 0"
    by (rule currentQuestion_run)
  moreover have "(matchId, st) \<in> set (matchStates (run es s))"
    using a(2) by (simp add: map_of_SomeD)
  ultimately have "currentQuestion st = 0" by blast
  with a(3) show False by simp
qed

theorem currentQuestion_stays_zero_witness:
  "matchStates exampleServer = []
   \<and> map_of (matchStates (run [ev_match_start (Some ''a1'') ''m1'' 600,
          ev_message 1 (submit_answer (jstr ''m1'') (jstr ''u1'') (jstr ''q1'') (jstr ''B'') (jstr ''t1'') jundefined) ''n1'' 610]
        exampleServer)) (jstr ''m1'')
       = Some \<lparr>status = live, currentQuestion = 0, homeScore = 1, awayScore = 0,
                timeRemaining = 30\<rparr>"
  using currentQuestion_stays_zero [of exampleServer
      "[ev_match_start (Some ''a1'') ''m1'' 600,
        ev_message 1 (submit_answer (jstr ''m1'') (jstr ''u1'') (jstr ''q1'') (jstr ''B'') (jstr ''t1'') jundefined) ''n1'' 610]"
      "jstr ''m1''"
      "\<lparr>status = live, currentQuestion = 0, homeScore = 1, awayScore = 0, timeRemaining = 30\<rparr>"]
  by code_simp

section \<open>Standings and match status over a run\<close>

lemma registerHandler_standings:
  "standings (data (snd (registerHandler competitionId teamId t1 t2 t3 t4 pid rid sid userId s)))
     = standings (data s)
   \<or> standings (data (snd (registerHandler competitionId teamId t1 t2 t3 t4 pid rid sid userId s)))
     = AList.update sid
         \<lparr>s_id = sid, s_competitionId = competitionId, s_teamId = teamId, played = 0, won = 0,
          drawn = 0, lost = 0, pointsFor = 0, pointsAgainst = 0, goalDifference = 0,
          leaguePoints = 0\<rparr> (standings (data s))"
  by (simp add: registerHandler_def Let_def createPayment_def registerTeam_def createStanding_def
      split: lookup.splits)

lemma standings_step:
  assumes "map_of (standings (data (step e s))) k = Some st"
  shows "map_of (standings (data s)) k = Some st \<or> zeroCounters st"
proof (cases e)
  case (ev_connection c)
  then show ?thesis using assms by (simp split: if_splits)
next
  case (ev_message c message nid now)
  show ?thesis
  proof (cases message)
    case (join_match k u)
    then show ?thesis using assms ev_message by (simp add: joinMatch_frame split: if_splits)
  next
    case (submit_answer k u q a t tk)
    then show ?thesis using assms ev_message
      by (simp add: submitAnswerMessage_frame split: if_splits)
  next
    case other_message
    then show ?thesis using assms ev_message by (simp split: if_splits)
  qed
next
  case (ev_closing c)
  then show ?thesis using assms by (simp split: if_splits)
next
  case (ev_close c)
  then show ?thesis using assms by (simp add: onClose_frame split: if_splits)
next
  case (ev_register session competitionId teamId t1 t2 t3 t4 pid rid sid)
  from postRegister_cases [of session competitionId teamId t1 t2 t3 t4 pid rid sid s] show ?thesis
  proof (elim disjE exE)
    assume "snd (postRegister session competitionId teamId t1 t2 t3 t4 pid rid sid s) = s"
    then show ?thesis using assms ev_register by simp
  next
    fix userId
    assume eq: "snd (postRegister session competitionId teamId t1 t2 t3 t4 pid rid sid s)
        = snd (registerHandler competitionId teamId t1 t2 t3 t4 pid rid sid userId s)"
    from registerHandler_standings [of competitionId teamId t1 t2 t3 t4 pid rid sid userId s]
    show ?thesis
    proof
      assume "standings (data (snd (registerHandler competitionId teamId t1 t2 t3 t4 pid rid sid userId s)))
          = standings (data s)"
      then show ?thesis using assms ev_register eq by simp
    next
      assume "standings (data (snd (registerHandler competitionId teamId t1 t2 t3 t4 pid rid sid userId s)))
          = AList.update sid
              \<lparr>s_id = sid, s_competitionId = competitionId, s_teamId = teamId, played = 0,
               won = 0, drawn = 0, lost = 0, pointsFor = 0, pointsAgainst = 0,
               goalDifference = 0, leaguePoints = 0\<rparr> (standings (data s))"
      then show ?thesis using assms ev_register eq
        by (auto simp: update_conv' zeroCounters_def split: if_splits)
    qed
  qed
next
  case (ev_practice_start session teamId type t1 t2 tid sid shuffle)
  then show ?thesis
    using assms postPracticeStart_cases [of session teamId type t1 t2 tid sid shuffle s]
    by (auto simp: practiceStartHandler_frame)
next
  case (ev_match_start session matchId now)
  then show ?thesis
    using assms postMatchStart_cases [of session matchId now s]
    by (auto simp: matchStartHandler_frame)
qed

lemma standings_run:
  "map_of (standings (data (run es s))) k = Some st \<Longrightarrow>
   map_of (standings (data s)) k = Some st \<or> zeroCounters st"
proof (induction es arbitrary: s)
  case Nil
  then show ?case by simp
next
  case (Cons e es)
  then have "map_of (standings (data (step e s))) k = Some st \<or> zeroCounters st" by simp
  then show ?case using standings_step by blast
qed

lemma matchStartHandler_matches:
  "map_of (matches (data (snd (matchStartHandler matchId now userId s)))) k = Some m \<Longrightarrow>
   m_status m = Some completed \<Longrightarrow>
   \<exists>m0. map_of (matches (data s)) k = Some m0 \<and> m_status m0 = Some completed"
  using updateMatch_completed [of matchId "\<lambda>m. m\<lparr>m_status := Some live, startedAt := Some now\<rparr>"
      "data s" k m]
  by (simp add: matchStartHandler_def Let_def broadcastToMatch_eq)

lemma matches_step:
  assumes "map_of (matches (data (step e s))) k = Some m" and "m_status m = Some completed"
  shows "\<exists>m0. map_of (matches (data s)) k = Some m0 \<and> m_status m0 = Some completed"
proof (cases e)
  case (ev_connection c)
  then show ?thesis using assms by (simp split: if_splits)
next
  case (ev_message c message nid now)
  show ?thesis
  proof (cases message)
    case (join_match k u)
    then show ?thesis using assms ev_message by (simp add: joinMatch_frame split: if_splits)
  next
    case (submit_answer k' u q a t tk)
    then show ?thesis using assms ev_message submitAnswerMessage_matches
      by (simp split: if_splits)
  next
    case other_message
    then show ?thesis using assms ev_message by (simp split: if_splits)
  qed
next
  case (ev_closing c)
  then show ?thesis using assms by (simp split: if_splits)
next
  case (ev_close c)
  then show ?thesis using assms by (simp add: onClose_frame split: if_splits)
next
  case (ev_register session competitionId teamId t1 t2 t3 t4 pid rid sid)
  then show ?thesis
    using assms postRegister_cases [of session competitionId teamId t1 t2 t3 t4 pid rid sid s]
    by (auto simp: registerHandler_frame)
next
  case (ev_practice_start session teamId type t1 t2 tid sid shuffle)
  then show ?thesis
    using assms postPracticeStart_cases [of session teamId type t1 t2 tid sid shuffle s]
    by (auto simp: practiceStartHandler_frame)
next
  case (ev_match_start session matchId now)
  from postMatchStart_cases [of session matchId now s] show ?thesis
  proof (elim disjE exE)
    assume "snd (postMatchStart session matchId now s) = s"
    then show ?thesis using assms ev_match_start by simp
  next
    fix userId
    assume "snd (postMatchStart session matchId now s) = snd (matchStartHandler matchId now userId s)"
    then show ?thesis using assms ev_match_start matchStartHandler_matches [of matchId now userId s k m]
      by simp
  qed
qed

lemma matches_run:
  "map_of (matches (data (run es s))) k = Some m \<Longrightarrow> m_status m = Some completed \<Longrightarrow>
   \<exists>m0. map_of (matches (data s)) k = Some m0 \<and> m_status m0 = Some completed"
proof (induction es arbitrary: s)
  case Nil
  then show ?case by simp
next
  case (Cons e es)
  then have "\<exists>m1. map_of (matches (data (step e s))) k = Some m1 \<and> m_status m1 = Some completed"
    by simp
  then show ?case using matches_step by blast
qed

text \<open>
  C2 (as amended). No operation of the server recomputes standings or completes a
  match. After every sequence of events, a standings row is either the row that was
  stored under the same id before, unchanged, or a row whose counters are all zero (the
  row a registration creates); and a match whose status is \<open>completed\<close> had that status
  before. \<open>updateStanding\<close> is never called.
\<close>

theorem standings_never_recomputed:
  "(map_of (standings (data (run es s))) k = Some st \<longrightarrow>
      map_of (standings (data s)) k = Some st \<or> zeroCounters st)
   \<and> (map_of (matches (data (run es s))) j = Some m \<and> m_status m = Some completed \<longrightarrow>
        (\<exists>m0. map_of (matches (data s)) j = Some m0 \<and> m_status m0 = Some completed))"
  using standings_run [of es s k st] matches_run [of es s j m] by blast

text \<open>
  The claim as first stated fails: with match \<open>m1\<close> completed 3 to 1 and the standings
  rows of its two teams at zero, no sequence of events leads to a state in which some
  standings row has a counter other than zero.
\<close>

theorem standings_recomputed_counterexample:
  "\<not> (\<exists>es k st. map_of (standings (data (run es finishedServer))) k = Some st
         \<and> \<not> zeroCounters st)"
proof
  assume "\<exists>es k st. map_of (standings (data (run es finishedServer))) k = Some st
         \<and> \<not> zeroCounters st"
  then obtain es k st where a: "map_of (standings (data (run es finishedServer))) k = Some st"
      and nz: "\<not> zeroCounters st"
    by blast
  from standings_run [OF a] nz have "map_of (standings (data finishedServer)) k = Some st"
    by simp
  then have "zeroCounters st"
    by (auto simp: finishedServer_def exampleServer_def exampleData_def emptyData_def
        zeroCounters_def split: if_splits)
  with nz show False by simp
qed

theorem standings_never_recomputed_witness:
  "map_of (standings (data (run
       [ev_register (Some ''u3'') ''c1'' (jstr ''t3'') 900 901 902 903 ''p3'' ''r3'' ''s3'',
        ev_message 1 (submit_answer (jstr ''m1'') (jstr ''u1'') (jstr ''q1'') (jstr ''B'') (jstr ''t1'') jundefined) ''n1'' 950]
       finishedServer))) ''s1''
     = Some \<lparr>s_id = ''s1'', s_competitionId = ''c1'', s_teamId = jstr ''t1'', played = 0,
             won = 0, drawn = 0, lost = 0, pointsFor = 0, pointsAgainst = 0,
             goalDifference = 0, leaguePoints = 0\<rparr>
   \<and> map_of (standings (data (run
       [ev_register (Some ''u3'') ''c1'' (jstr ''t3'') 900 901 902 903 ''p3'' ''r3'' ''s3'',
        ev_message 1 (submit_answer (jstr ''m1'') (jstr ''u1'') (jstr ''q1'') (jstr ''B'') (jstr ''t1'') jundefined) ''n1'' 950]
       finishedServer))) ''s3''
     = Some \<lparr>s_id = ''s3'', s_competitionId = ''c1'', s_teamId = jstr ''t3'', played = 0,
             won = 0, drawn = 0, lost = 0, pointsFor = 0, pointsAgainst = 0,
             goalDifference = 0, leaguePoints = 0\<rparr>
   \<and> map_option m_status (map_of (matches (data (run
       [ev_register (Some ''u3'') ''c1'' (jstr ''t3'') 900 901 902 903 ''p3'' ''r3'' ''s3'',
        ev_message 1 (submit_answer (jstr ''m1'') (jstr ''u1'') (jstr ''q1'') (jstr ''B'') (jstr ''t1'') jundefined) ''n1'' 950]
       finishedServer))) ''m1'') = Some (Some completed)
   \<and> map_option m_status (map_of (matches (data finishedServer)) ''m1'') = Some (Some completed)"
proof -
  have facts: "map_of (standings (data (run
       [ev_register (Some ''u3'') ''c1'' (jstr ''t3'') 900 901 902 903 ''p3'' ''r3'' ''s3'',
        ev_message 1 (submit_answer (jstr ''m1'') (jstr ''u1'') (jstr ''q1'') (jstr ''B'') (jstr ''t1'') jundefined) ''n1'' 950]
       finishedServer))) ''s1''
     = Some \<lparr>s_id = ''s1'', s_competitionId = ''c1'', s_teamId = jstr ''t1'', played = 0,
             won = 0, drawn = 0, lost = 0, pointsFor = 0, pointsAgainst = 0,
             goalDifference = 0, leaguePoints = 0\<rparr>
   \<and> map_of (standings (data (run
       [ev_register (Some ''u3'') ''c1'' (jstr ''t3'') 900 901 902 903 ''p3'' ''r3'' ''s3'',
        ev_message 1 (submit_answer (jstr ''m1'') (jstr ''u1'') (jstr ''q1'') (jstr ''B'') (jstr ''t1'') jundefined) ''n1'' 950]
       finishedServer))) ''s3''
     = Some \<lparr>s_id = ''s3'', s_competitionId = ''c1'', s_teamId = jstr ''t3'', played = 0,
             won = 0, drawn = 0, lost = 0, pointsFor = 0, pointsAgainst = 0,
             goalDifference = 0, leaguePoints = 0\<rparr>
   \<and> map_option m_status (map_of (matches (data (run
       [ev_register (Some ''u3'') ''c1'' (jstr ''t3'') 900 901 902 903 ''p3'' ''r3'' ''s3'',
        ev_message 1 (submit_answer (jstr ''m1'') (jstr ''u1'') (jstr ''q1'') (jstr ''B'') (jstr ''t1'') jundefined) ''n1'' 950]
       finishedServer))) ''m1'') = Some (Some completed)
   \<and> map_option m_status (map_of (matches (data finishedServer)) ''m1'') = Some (Some completed)"
    by code_simp
  from standings_never_recomputed [of
      "[ev_register (Some ''u3'') ''c1'' (jstr ''t3'') 900 901 902 903 ''p3'' ''r3'' ''s3'',
        ev_message 1 (submit_answer (jstr ''m1'') (jstr ''u1'') (jstr ''q1'') (jstr ''B'') (jstr ''t1'') jundefined) ''n1'' 950]"
      finishedServer "''s1''"
      "\<lparr>s_id = ''s1'', s_competitionId = ''c1'', s_teamId = jstr ''t1'', played = 0,
             won = 0, drawn = 0, lost = 0, pointsFor = 0, pointsAgainst = 0,
             goalDifference = 0, leaguePoints = 0\<rparr>"
      "''m1''"
      "the (map_of (matches (data (run
       [ev_register (Some ''u3'') ''c1'' (jstr ''t3'') 900 901 902 903 ''p3'' ''r3'' ''s3'',
        ev_message 1 (submit_answer (jstr ''m1'') (jstr ''u1'') (jstr ''q1'') (jstr ''B'') (jstr ''t1'') jundefined) ''n1'' 950]
       finishedServer))) ''m1'')"] facts
  show ?thesis by simp
qed

section \<open>Starting a practice session\<close>







text \<open>
  Outside that statement the handler goes on where the team or the balance is not what
  the test \<open>!team || team.practiceTokens < 1\<close> expects. For the id \<open>constructor\<close>
  the read gives an inherited function: the route answers 200 and \<open>updateTeam\<close>
  stores a team that has only the balance \<open>NaN\<close>. A balance \<open>NaN\<close> passes the test
  and stays \<open>NaN\<close>, and of \<open>2^53 + 2\<close> tokens the decrement leaves \<open>2^53\<close>.
\<close>

lemma practice_start_inherited_team:
  "getTeam (data exampleServer) ''constructor'' = inherited
   \<and> fst (fst (postPracticeStart (Some ''u1'') (jstr ''constructor'') (jstr ''solo'') 50 51
        ''x1'' ''y1'' rev exampleServer)) = 200
   \<and> map_of (teams (data (snd (postPracticeStart (Some ''u1'') (jstr ''constructor'')
        (jstr ''solo'') 50 51 ''x1'' ''y1'' rev exampleServer)))) ''constructor''
     = Some \<lparr>t_id = None, t_name = None, t_createdBy = None, practiceTokens = Some NaN\<rparr>
   \<and> map_option tt_amount (map_of (tokenTransactions (data (snd (postPracticeStart
        (Some ''u1'') (jstr ''constructor'') (jstr ''solo'') 50 51 ''x1'' ''y1'' rev
        exampleServer)))) ''x1'') = Some (- 1)"
  by code_simp

lemma practice_start_unsafe_balance:
  "\<not> lessThanOne (Some NaN) \<and> minusOne (Some NaN) = NaN
   \<and> \<not> lessThanOne (Some (number (2 ^ 53 + 2)))
   \<and> minusOne (Some (number (2 ^ 53 + 2))) = number (2 ^ 53)"
  by (simp add: roundDouble_def Let_def bitLength.simps)

section \<open>Scores after an answer\<close>


section \<open>Ids that name an inherited property\<close>

text \<open>
  C7. On a server that has just started, one client connects and sends a
  \<open>submit_answer\<close> whose \<open>questionId\<close> is \<open>toString\<close> and whose \<open>matchId\<close> is
  \<open>constructor\<close>. Both reads give an inherited function, the handler goes on, and
  \<open>updateMatch\<close> stores under \<open>constructor\<close> an object that has the two scores and
  nothing else: a record of the matches table whose status is none of \<open>waiting\<close>,
  \<open>live\<close> and \<open>completed\<close>.
\<close>

theorem submit_answer_stores_match_without_status:
  "matches (data initServer) = []
   \<and> matches (data (run
       [ev_connection 1,
        ev_message 1 (submit_answer (jstr ''constructor'') (jstr ''u1'') (jstr ''toString'')
          (jstr ''A'') (jstr ''t1'') jundefined) ''n1'' 10]
       initServer))
     = [(''constructor'', emptyMatch\<lparr>m_homeScore := Some 0, m_awayScore := Some 0\<rparr>)]
   \<and> getMatch (data (run
       [ev_connection 1,
        ev_message 1 (submit_answer (jstr ''constructor'') (jstr ''u1'') (jstr ''toString'')
          (jstr ''A'') (jstr ''t1'') jundefined) ''n1'' 10]
       initServer)) ''constructor''
     = stored \<lparr>m_id = None, m_competitionId = None, homeTeamId = None, awayTeamId = None,
         m_round = None, scheduledAt = None, m_status = None, m_homeScore = Some 0,
         m_awayScore = Some 0, startedAt = None, m_completedAt = None\<rparr>"
  by code_simp

text \<open>
  C8. Neither a question \<open>valueOf\<close> nor a match \<open>hasOwnProperty\<close> is stored, yet a
  \<open>submit_answer\<close> with these ids and no \<open>answer\<close> field passes the test
  \<open>question && match\<close>: an answer is recorded, flagged correct because the missing
  answer and the missing \<open>correctAnswer\<close> are both \<open>undefined\<close>, the reply
  \<open>answer_result\<close> is sent, and the matches table gains an entry.
\<close>

theorem submit_answer_without_question_and_match:
  "map_of (questions (data exampleServer)) ''valueOf'' = None
   \<and> map_of (matches (data exampleServer)) ''hasOwnProperty'' = None
   \<and> playerAnswers (data exampleServer) = []
   \<and> sent exampleServer = []
   \<and> playerAnswers (data (step
       (ev_message 1 (submit_answer (jstr ''hasOwnProperty'') (jstr ''u1'') (jstr ''valueOf'')
          jundefined (jstr ''t1'') jundefined) ''n1'' 10) exampleServer))
     = [(''n1'', \<lparr>pa_id = ''n1'', pa_matchId = jstr ''hasOwnProperty'',
          pa_questionId = jstr ''valueOf'', pa_userId = jstr ''u1'', pa_teamId = jstr ''t1'',
          pa_answer = jundefined, isCorrect = True, answeredAt = 10,
          timeTaken = jundefined\<rparr>)]
   \<and> sent (step
       (ev_message 1 (submit_answer (jstr ''hasOwnProperty'') (jstr ''u1'') (jstr ''valueOf'')
          jundefined (jstr ''t1'') jundefined) ''n1'' 10) exampleServer)
     = [(1, msg_answer_result True)]
   \<and> matches (data (step
       (ev_message 1 (submit_answer (jstr ''hasOwnProperty'') (jstr ''u1'') (jstr ''valueOf'')
          jundefined (jstr ''t1'') jundefined) ''n1'' 10) exampleServer))
     = [(''m1'', exampleMatch),
        (''hasOwnProperty'', emptyMatch\<lparr>m_homeScore := Some 0, m_awayScore := Some 0\<rparr>)]"
  by code_simp

text \<open>
  C10. No competition \<open>constructor\<close> is stored, yet
  \<open>POST /api/competitions/constructor/register\<close> by a member of team \<open>t1\<close> passes
  every check: the read gives an inherited function, whose \<open>registrationDeadline\<close>
  and \<open>maxTeams\<close> are \<open>undefined\<close>, so that neither comparison holds. The route
  answers 200 with the registration and stores a payment without an amount, the
  registration and a standing.
\<close>

theorem register_without_competition:
  "map_of (competitions (data exampleServer)) ''constructor'' = None
   \<and> postRegister (Some ''u1'') ''constructor'' (jstr ''t1'') 2000 2001 2002 2003
        ''p1'' ''r1'' ''s1'' exampleServer
     = ((200, body_registration
           \<lparr>r_id = ''r1'', r_competitionId = ''constructor'', r_teamId = jstr ''t1'',
            paidBy = ''u1'', r_paymentId = Some ''p1'', registeredAt = 2003\<rparr>),
        exampleServer\<lparr>data := exampleData
          \<lparr>payments :=
             [(''p1'', \<lparr>p_id = ''p1'', p_userId = ''u1'', p_teamId = jstr ''t1'',
                 p_competitionId = Some ''constructor'', p_amount = None,
                 p_type = pay_registration, p_status = pay_completed,
                 p_reference = Some (REG 2001), p_createdAt = 2002,
                 p_completedAt = None\<rparr>)],
           competitionRegistrations :=
             [(''r1'', \<lparr>r_id = ''r1'', r_competitionId = ''constructor'',
                 r_teamId = jstr ''t1'', paidBy = ''u1'', r_paymentId = Some ''p1'',
                 registeredAt = 2003\<rparr>)],
           standings :=
             [(''s1'', \<lparr>s_id = ''s1'', s_competitionId = ''constructor'',
                 s_teamId = jstr ''t1'', played = 0, won = 0, drawn = 0, lost = 0,
                 pointsFor = 0, pointsAgainst = 0, goalDifference = 0,
                 leaguePoints = 0\<rparr>)]\<rparr>\<rparr>)"
  by code_simp

end
